theory Spec2Isabelle
  imports Complex_Main "HOL-Library.Word"
begin

unbundle bit_operations_syntax

section \<open>Firmware of the 5-axis robotic arm: data model\<close>

text \<open>
  The embedding follows \<^verbatim>\<open>5A-RA_firmware.ino\<close>. The firmware is written for a
  target whose \<^verbatim>\<open>int\<close> and \<^verbatim>\<open>long\<close> have 32 bits (the discriminant
  \<^verbatim>\<open>pow(TF * ACC / 1000.0, 2)\<close> is 230400 only there), so \<^verbatim>\<open>int\<close> values are
  modelled by \<^typ>\<open>int\<close> with the 32-bit wrap-around written out where a product can
  leave the range, \<^verbatim>\<open>uint32_t\<close> by \<^typ>\<open>32 word\<close> and \<^verbatim>\<open>uint8_t\<close>/\<^verbatim>\<open>byte\<close> by
  \<^typ>\<open>8 word\<close>. Floating-point expressions are modelled by exact real arithmetic: the
  values that the source truncates to integers are either exact in binary floating point
  or further from the nearest integer than the rounding error, except for the peak speed
  when the discriminant is a perfect square. The pointer arguments of the source are never
  null, and the checks for null are left out.
\<close>

type_synonym u8 = "8 word"
type_synonym u32 = "32 word"

definition ACC :: int where
  "ACC = 320"

definition TF :: int where
  "TF = 1500"

definition RANGE_M1 :: int where "RANGE_M1 = 180"
definition RANGE_M2 :: int where "RANGE_M2 = 180"
definition RANGE_M3 :: int where "RANGE_M3 = 165"
definition RANGE_M4 :: int where "RANGE_M4 = 180"
definition RANGE_M5 :: int where "RANGE_M5 = 180"

definition ANGLE_INIT_M1 :: int where "ANGLE_INIT_M1 = 90"
definition ANGLE_INIT_M2 :: int where "ANGLE_INIT_M2 = 180"
definition ANGLE_INIT_M3 :: int where "ANGLE_INIT_M3 = RANGE_M3"
definition ANGLE_INIT_M4 :: int where "ANGLE_INIT_M4 = 90"
definition ANGLE_INIT_M5 :: int where "ANGLE_INIT_M5 = 180"

record motor_dynamics_t =
  forward :: bool
  t1 :: u32
  t2 :: u32
  angle_t0 :: u8
  angle_t1 :: u8
  angle_t2 :: u8
  angle_tf :: u8
  delta :: int

text \<open>
  Three operations of the source have no result defined by the language on some of the
  inputs the firmware feeds them: the integer division by a zero \<^verbatim>\<open>DISTANCE\<close>, the
  conversion to \<^verbatim>\<open>int\<close> of the NaN that \<^verbatim>\<open>pow(delta, 0.5)\<close> yields for a negative
  discriminant, and the conversion to \<^verbatim>\<open>uint8_t\<close> of a floating-point value outside
  the range of that type. What they do is the target's choice, held by the record
  \<open>platform\<close>:
  \<^item> \<open>div_by_zero\<close> is \<open>None\<close> where the integer division by zero traps and the program
    is stopped, and \<open>Some q\<close> where it returns the quotient \<open>q\<close> (the ARM cores in their
    default configuration return 0);
  \<^item> \<open>nan_is_min\<close> tells whether the conversion of a NaN yields the most negative
    \<^verbatim>\<open>int\<close> (the x86 conversion) or 0 (the ARM conversion);
  \<^item> \<open>oor_to_u8\<close> is the byte that an out-of-range value converts to.
\<close>

record platform =
  div_by_zero :: "int option"
  nan_is_min :: bool
  oor_to_u8 :: "real \<Rightarrow> u8"

definition nan_to_int :: "platform \<Rightarrow> int" where
  "nan_to_int pl = (if nan_is_min pl then - 2147483648 else 0)"

text \<open>
  A function of the source that may execute a trapping division either returns, or the
  program is stopped inside it; in both cases the value is the memory it has written.
\<close>

datatype 'a outcome = Returned (memory: 'a) | Killed (memory: 'a)

fun then_do :: "'a outcome \<Rightarrow> ('a \<Rightarrow> 'a outcome) \<Rightarrow> 'a outcome" where
  "then_do (Returned x) f = f x"
| "then_do (Killed x) f = Killed x"

text \<open>Conversion of a floating-point value to an integer type truncates toward zero.\<close>

definition trunc :: "real \<Rightarrow> int" where
  "trunc x = (if 0 \<le> x then \<lfloor>x\<rfloor> else \<lceil>x\<rceil>)"

definition to_u8 :: "platform \<Rightarrow> real \<Rightarrow> u8" where
  "to_u8 pl x = (if - 1 < x \<and> x < 256 then word_of_int (trunc x) else oor_to_u8 pl x)"

text \<open>Integer division of C truncates toward zero (the divisor is not zero).\<close>

definition c_div :: "int \<Rightarrow> int \<Rightarrow> int" where
  "c_div a b = sgn a * sgn b * (\<bar>a\<bar> div \<bar>b\<bar>)"

text \<open>The value an \<^verbatim>\<open>int\<close> product takes in 32 bits (two's complement).\<close>

definition int32 :: "int \<Rightarrow> int" where
  "int32 k = signed_take_bit 31 k"

section \<open>Trajectory profile: \<^verbatim>\<open>compute_dynamics\<close> and \<^verbatim>\<open>compute_angle\<close>\<close>

text \<open>
  \<^verbatim>\<open>const int SPEED = 0.5 * (TF * ACC / 1000.0 - pow(dyn->delta, 0.5));\<close>
  For a negative \<open>delta\<close> the power is NaN and so is the product.
\<close>

definition compute_speed :: "platform \<Rightarrow> int \<Rightarrow> int" where
  "compute_speed pl dlt =
     (if dlt < 0 then nan_to_int pl
      else trunc (0.5 * (real_of_int (TF * ACC) / 1000 - sqrt (real_of_int dlt))))"

text \<open>\<^verbatim>\<open>const byte DISTANCE = sqrt(pow(dyn->angle_tf - dyn->angle_t0, 2));\<close>\<close>

definition compute_distance :: "platform \<Rightarrow> motor_dynamics_t \<Rightarrow> u8 \<Rightarrow> u8" where
  "compute_distance pl dyn current_angle =
     to_u8 pl (sqrt ((real_of_int (uint (angle_tf dyn) - uint current_angle))\<^sup>2))"

text \<open>
  Lines 378 to 387 of \<^verbatim>\<open>compute_dynamics\<close>: the fields written before the division by
  \<^verbatim>\<open>DISTANCE\<close>.
\<close>

definition plan_times :: "platform \<Rightarrow> motor_dynamics_t \<Rightarrow> u8 \<Rightarrow> motor_dynamics_t" where
  "plan_times pl dyn current_angle =
     (let a0 = current_angle;
          fwd = (a0 < angle_tf dyn);
          DISTANCE = compute_distance pl dyn current_angle;
          dlt = trunc ((real_of_int (TF * ACC) / 1000)\<^sup>2 - real_of_int (4 * uint DISTANCE * ACC));
          SPEED = compute_speed pl dlt;
          t1' = (word_of_int (c_div (int32 (1000 * SPEED)) ACC) :: u32);
          t2' = word_of_int TF - t1'
      in dyn\<lparr>forward := fwd, t1 := t1', t2 := t2', angle_t0 := a0, delta := dlt\<rparr>)"

text \<open>
  Lines 390 and 391: the two angles, computed from \<^verbatim>\<open>SIGN\<close> and from \<^verbatim>\<open>SPEED\<close> (the
  peak speed of the discriminant just stored).
\<close>

definition plan_angles :: "platform \<Rightarrow> int \<Rightarrow> motor_dynamics_t \<Rightarrow> motor_dynamics_t" where
  "plan_angles pl SIGN dyn =
     (let SPEED = compute_speed pl (delta dyn);
          a1 = to_u8 pl (real (unat (angle_t0 dyn))
                 + real_of_int (int32 (SIGN * ACC)) * (real (unat (t1 dyn)) / 1000)\<^sup>2 / 2);
          a2 = to_u8 pl (real (unat a1)
                 + real (unat ((word_of_int (SIGN * SPEED) :: u32) * (t2 dyn - t1 dyn))) / 1000)
      in dyn\<lparr>angle_t1 := a1, angle_t2 := a2\<rparr>)"

text \<open>
  \<^verbatim>\<open>compute_dynamics\<close>. Line 389 is \<^verbatim>\<open>const int SIGN = (dyn->angle_tf - dyn->angle_t0) / DISTANCE;\<close>:
  when the target equals the current angle this is the division of 0 by 0.
\<close>

definition compute_dynamics ::
    "platform \<Rightarrow> motor_dynamics_t \<Rightarrow> u8 \<Rightarrow> motor_dynamics_t outcome" where
  "compute_dynamics pl dyn current_angle =
     (let dyn1 = plan_times pl dyn current_angle;
          DISTANCE = compute_distance pl dyn current_angle
      in if DISTANCE = 0 then
           (case div_by_zero pl of
              None \<Rightarrow> Killed dyn1
            | Some q \<Rightarrow> Returned (plan_angles pl q dyn1))
         else Returned (plan_angles pl
                (c_div (uint (angle_tf dyn) - uint current_angle) (uint DISTANCE)) dyn1))"

text \<open>The profile in memory after the call, whether it has returned or not.\<close>

definition planned :: "platform \<Rightarrow> motor_dynamics_t \<Rightarrow> u8 \<Rightarrow> motor_dynamics_t" where
  "planned pl dyn current_angle = memory (compute_dynamics pl dyn current_angle)"

text \<open>
  In the constant-velocity phase all arithmetic is \<^verbatim>\<open>uint32_t\<close> arithmetic: the
  \<^verbatim>\<open>int\<close> difference \<^verbatim>\<open>angle_t2 - angle_t1\<close> is converted to \<^verbatim>\<open>uint32_t\<close> before it
  is multiplied by \<^verbatim>\<open>t1\<close> or \<^verbatim>\<open>t\<close>, and the division is unsigned. In the
  deceleration phase of a backward move the source computes \<^verbatim>\<open>t - TF\<close> in
  \<^verbatim>\<open>uint32_t\<close>.
\<close>

definition compute_angle :: "platform \<Rightarrow> motor_dynamics_t \<Rightarrow> u32 \<Rightarrow> u8" where
  "compute_angle pl dyn t =
     (if t \<le> t1 dyn then
        (if forward dyn
         then to_u8 pl ((real (unat t) / 1000)\<^sup>2 * real_of_int ACC / 2 + real (unat (angle_t0 dyn)))
         else to_u8 pl (- ((real (unat t) / 1000)\<^sup>2) * real_of_int ACC / 2 + real (unat (angle_t0 dyn))))
      else if t1 dyn < t \<and> t \<le> t2 dyn then
        (let slope = (word_of_int (uint (angle_t2 dyn) - uint (angle_t1 dyn)) :: u32);
             B = sint ((word_of_int (uint (angle_t1 dyn)) :: u32)
                       - slope * t1 dyn div (t2 dyn - t1 dyn))
         in ucast (t * slope div (t2 dyn - t1 dyn) + word_of_int B))
      else if t2 dyn < t \<and> t \<le> word_of_int TF then
        (if forward dyn
         then to_u8 pl (- ((real (unat (word_of_int TF - t)) / 1000)\<^sup>2) * real_of_int ACC / 2
                        + real (unat (angle_tf dyn)))
         else to_u8 pl ((real (unat (t - word_of_int TF)) / 1000)\<^sup>2 * real_of_int ACC / 2
                        + real (unat (angle_tf dyn))))
      else angle_tf dyn)"

text \<open>The distance \<^verbatim>\<open>DISTANCE\<close> of the move planned from the angle \<open>c\<close>.\<close>

definition distance :: "motor_dynamics_t \<Rightarrow> u8 \<Rightarrow> int" where
  "distance dyn c = \<bar>uint (angle_tf dyn) - uint c\<bar>"

section \<open>Collaborators outside the repository\<close>

text \<open>
  Modelled from the spec: the actuators. The \<^verbatim>\<open>Servo\<close> objects belong to the Arduino
  Servo library, which is not part of the repository; the spec describes an actuator as
  accepting an angle command and exposing its last commanded angle. The state keeps, for
  each of the six \<^verbatim>\<open>Servo\<close> globals, the angle last written, and the sequence of all
  writes performed.
\<close>

datatype servo = M1 | M2 | M2s | M3 | M4 | M5

text \<open>
  Modelled from the spec: \<^verbatim>\<open>map\<close> of the Arduino core (the percentage is ``linearly
  mapped'' to the travel range): \<^verbatim>\<open>(x - in_min) * (out_max - out_min) / (in_max - in_min) + out_min\<close>
  in \<^verbatim>\<open>long\<close> arithmetic.
\<close>

definition map_long :: "int \<Rightarrow> int \<Rightarrow> int \<Rightarrow> int \<Rightarrow> int \<Rightarrow> int" where
  "map_long x in_min in_max out_min out_max =
     c_div ((x - in_min) * (out_max - out_min)) (in_max - in_min) + out_min"

text \<open>
  Modelled from the spec: \<^verbatim>\<open>String\<close> of the Arduino core. \<^verbatim>\<open>input[i]\<close> is the
  character at position \<open>i\<close>, or the character 0 past the end; \<^verbatim>\<open>toInt\<close> reads an optional
  sign and the decimal digits that follow leading white space, and is 0 when there are none;
  \<^verbatim>\<open>String(n)\<close> is the decimal representation of \<open>n\<close>.
\<close>

definition char_at :: "string \<Rightarrow> nat \<Rightarrow> char" where
  "char_at s i = (if i < length s then s ! i else CHR 0x00)"

definition is_space :: "char \<Rightarrow> bool" where
  "is_space c = (c = CHR '' '' \<or> (9 \<le> (of_char c :: nat) \<and> (of_char c :: nat) \<le> 13))"

definition is_digit :: "char \<Rightarrow> bool" where
  "is_digit c = (48 \<le> (of_char c :: nat) \<and> (of_char c :: nat) \<le> 57)"

fun digits_value :: "int \<Rightarrow> string \<Rightarrow> int" where
  "digits_value acc [] = acc"
| "digits_value acc (c # cs) =
     (if is_digit c then digits_value (10 * acc + (of_char c - 48)) cs else acc)"

definition toInt :: "string \<Rightarrow> int" where
  "toInt s =
     (case dropWhile is_space s of
        [] \<Rightarrow> 0
      | c # cs \<Rightarrow>
          if c = CHR ''-'' then - digits_value 0 cs
          else if c = CHR ''+'' then digits_value 0 cs
          else digits_value 0 (c # cs))"

function digits_of :: "nat \<Rightarrow> string" where
  "digits_of n = (if n < 10 then [char_of (48 + n)] else digits_of (n div 10) @ [char_of (48 + n mod 10)])"
  by pat_completeness auto
termination
  by (relation "measure id") auto

definition String_of :: "int \<Rightarrow> string" where
  "String_of k = (if k < 0 then CHR ''-'' # digits_of (nat (- k)) else digits_of (nat k))"

section \<open>State of the firmware\<close>

record cartesian_position_t =
  pos_x :: "16 word"
  pos_y :: "16 word"
  pos_z :: "16 word"
  yaw :: "16 word"
  pitch :: "16 word"

text \<open>
  The global variables, with the serial output produced so far. The fields of
  \<^verbatim>\<open>cartesian_position_t\<close> are \<^verbatim>\<open>x\<close>, \<^verbatim>\<open>y\<close>, \<^verbatim>\<open>z\<close> in the source; they are
  \<^verbatim>\<open>int16_t\<close>, read with \<^const>\<open>sint\<close>.
\<close>

record robot =
  servos :: "servo \<Rightarrow> int"
  written :: "(servo \<times> int) list"
  dynamics_M1 :: motor_dynamics_t
  dynamics_M2 :: motor_dynamics_t
  dynamics_M3 :: motor_dynamics_t
  dynamics_M4 :: motor_dynamics_t
  dynamics_M5 :: motor_dynamics_t
  cartesian_pos :: cartesian_position_t
  motor_id :: char
  single_motor_mode :: bool
  cartesian_mode :: bool
  single_motor_running :: bool
  five_axis_running :: bool
  serial_out :: string

definition servo_write :: "servo \<Rightarrow> int \<Rightarrow> robot \<Rightarrow> robot" where
  "servo_write m v st = st\<lparr>servos := (servos st)(m := v), written := written st @ [(m, v)]\<rparr>"

definition servo_read :: "servo \<Rightarrow> robot \<Rightarrow> int" where
  "servo_read m st = servos st m"

definition print :: "string \<Rightarrow> robot \<Rightarrow> robot" where
  "print s st = st\<lparr>serial_out := serial_out st @ s\<rparr>"

definition println :: "string \<Rightarrow> robot \<Rightarrow> robot" where
  "println s st = print (s @ [CHR 0x0D, CHR 0x0A]) st"

section \<open>Feasibility gate and scheduler\<close>

definition is_delta_positive :: "robot \<Rightarrow> bool" where
  "is_delta_positive st =
     (if 0 \<le> delta (dynamics_M1 st)
         \<and> 0 \<le> delta (dynamics_M2 st)
         \<and> 0 \<le> delta (dynamics_M3 st)
         \<and> 0 \<le> delta (dynamics_M4 st)
         \<and> 0 \<le> delta (dynamics_M5 st)
      then True else False)"

text \<open>
  The five-axis dispatch; the main loop and \<^verbatim>\<open>reset_robot\<close> both contain these six
  writes.
\<close>

definition write_all :: "platform \<Rightarrow> u32 \<Rightarrow> robot \<Rightarrow> robot" where
  "write_all pl t st =
     (let st1 = servo_write M1 (uint (compute_angle pl (dynamics_M1 st) t)) st;
          st2 = servo_write M2 (uint (compute_angle pl (dynamics_M2 st1) t)) st1;
          st3 = servo_write M2s (uint (compute_angle pl (dynamics_M2 st2) t)) st2;
          st4 = servo_write M3 (uint (compute_angle pl (dynamics_M3 st3) t)) st3;
          st5 = servo_write M4 (uint (compute_angle pl (dynamics_M4 st4) t)) st4
      in servo_write M5 (uint (compute_angle pl (dynamics_M5 st5) t)) st5)"

text \<open>
  One iteration of \<^verbatim>\<open>while (!Serial.available())\<close> in \<^verbatim>\<open>loop\<close>; \<open>now\<close> is the
  value \<^verbatim>\<open>millis()\<close> returns in this iteration and \<open>t0\<close> the one taken when
  \<^verbatim>\<open>loop\<close> was entered.
\<close>

definition scheduler_iteration :: "platform \<Rightarrow> u32 \<Rightarrow> u32 \<Rightarrow> robot \<Rightarrow> robot" where
  "scheduler_iteration pl t0 now st =
     (if is_delta_positive st then
        (let t = now - t0 in
         if single_motor_running st then
           (if motor_id st = CHR ''1'' then
              servo_write M1 (uint (compute_angle pl (dynamics_M1 st) t)) st
            else if motor_id st = CHR ''2'' then
              (let st1 = servo_write M2 (uint (compute_angle pl (dynamics_M2 st) t)) st
               in servo_write M2s (uint (compute_angle pl (dynamics_M2 st1) t)) st1)
            else if motor_id st = CHR ''3'' then
              servo_write M3 (uint (compute_angle pl (dynamics_M3 st) t)) st
            else if motor_id st = CHR ''4'' then
              servo_write M4 (uint (compute_angle pl (dynamics_M4 st) t)) st
            else if motor_id st = CHR ''5'' then
              servo_write M5 (uint (compute_angle pl (dynamics_M5 st) t)) st
            else st)
         else if five_axis_running st then write_all pl t st
         else st)
      else st)"

text \<open>
  The polling loop runs one iteration for each reading of the clock taken before a line of
  input arrives.
\<close>

fun scheduler :: "platform \<Rightarrow> u32 \<Rightarrow> u32 list \<Rightarrow> robot \<Rightarrow> robot" where
  "scheduler pl t0 [] st = st"
| "scheduler pl t0 (now # clock) st = scheduler pl t0 clock (scheduler_iteration pl t0 now st)"

section \<open>Inverse kinematics: the commit of \<^verbatim>\<open>get_angles_from_cartesian\<close>\<close>

text \<open>
  Lines 335 to 355 of the source compute, in floating point and with trigonometric
  functions, the wrist position (written back into \<^verbatim>\<open>*pos\<close>) and the five values
  \<^verbatim>\<open>round(...)\<close>. That computation is a parameter \<open>solve\<close> of the model. \<^verbatim>\<open>round\<close> is
  the macro of the Arduino core and yields a \<^verbatim>\<open>long\<close>; each value is then stored in a
  \<^verbatim>\<open>const byte\<close>, which keeps its low 8 bits. The comparisons \<^verbatim>\<open>ANGLE_Mx >= 0\<close> are
  made on the \<^verbatim>\<open>byte\<close>.
\<close>

record solved =
  wrist :: cartesian_position_t
  round_M1 :: int
  round_M2 :: int
  round_M3 :: int
  round_M4 :: int
  round_M5 :: int

text \<open>The condition of the \<^verbatim>\<open>if\<close> that guards the assignment of the five angles.\<close>

definition within_envelope :: "u8 \<Rightarrow> u8 \<Rightarrow> u8 \<Rightarrow> u8 \<Rightarrow> u8 \<Rightarrow> bool" where
  "within_envelope ANGLE_M1 ANGLE_M2 ANGLE_M3 ANGLE_M4 ANGLE_M5 =
     (0 \<le> uint ANGLE_M1 \<and> uint ANGLE_M1 \<le> RANGE_M1
      \<and> 0 \<le> uint ANGLE_M2 \<and> uint ANGLE_M2 \<le> RANGE_M2
      \<and> 0 \<le> uint ANGLE_M3 \<and> uint ANGLE_M3 \<le> RANGE_M3
      \<and> 0 \<le> uint ANGLE_M4 \<and> uint ANGLE_M4 \<le> RANGE_M4
      \<and> 0 \<le> uint ANGLE_M5 \<and> uint ANGLE_M5 \<le> RANGE_M5)"

definition get_angles_from_cartesian ::
    "(cartesian_position_t \<Rightarrow> solved) \<Rightarrow> robot \<Rightarrow> robot" where
  "get_angles_from_cartesian solve st =
     (let r = solve (cartesian_pos st);
          st1 = st\<lparr>cartesian_pos := wrist r\<rparr>;
          ANGLE_M1 = (word_of_int (round_M1 r) :: u8);
          ANGLE_M2 = (word_of_int (round_M2 r) :: u8);
          ANGLE_M3 = (word_of_int (round_M3 r) :: u8);
          ANGLE_M4 = (word_of_int (round_M4 r) :: u8);
          ANGLE_M5 = (word_of_int (round_M5 r) :: u8)
      in if within_envelope ANGLE_M1 ANGLE_M2 ANGLE_M3 ANGLE_M4 ANGLE_M5
         then st1\<lparr>dynamics_M1 := (dynamics_M1 st1)\<lparr>angle_tf := ANGLE_M1\<rparr>,
                  dynamics_M2 := (dynamics_M2 st1)\<lparr>angle_tf := ANGLE_M2\<rparr>,
                  dynamics_M3 := (dynamics_M3 st1)\<lparr>angle_tf := ANGLE_M3\<rparr>,
                  dynamics_M4 := (dynamics_M4 st1)\<lparr>angle_tf := ANGLE_M4\<rparr>,
                  dynamics_M5 := (dynamics_M5 st1)\<lparr>angle_tf := ANGLE_M5\<rparr>\<rparr>
         else println ''Error(get_angles_from_cartesian): End position is outside of work enveloppe'' st1)"

section \<open>Reset\<close>

text \<open>
  The statements \<^verbatim>\<open>compute_dynamics(&dynamics_Mx, Mx.read());\<close>, and the five of them
  in a row.
\<close>

definition plan_M1 :: "platform \<Rightarrow> robot \<Rightarrow> robot outcome" where
  "plan_M1 pl st = map_outcome (\<lambda>d. st\<lparr>dynamics_M1 := d\<rparr>)
     (compute_dynamics pl (dynamics_M1 st) (word_of_int (servo_read M1 st)))"

definition plan_M2 :: "platform \<Rightarrow> robot \<Rightarrow> robot outcome" where
  "plan_M2 pl st = map_outcome (\<lambda>d. st\<lparr>dynamics_M2 := d\<rparr>)
     (compute_dynamics pl (dynamics_M2 st) (word_of_int (servo_read M2 st)))"

definition plan_M3 :: "platform \<Rightarrow> robot \<Rightarrow> robot outcome" where
  "plan_M3 pl st = map_outcome (\<lambda>d. st\<lparr>dynamics_M3 := d\<rparr>)
     (compute_dynamics pl (dynamics_M3 st) (word_of_int (servo_read M3 st)))"

definition plan_M4 :: "platform \<Rightarrow> robot \<Rightarrow> robot outcome" where
  "plan_M4 pl st = map_outcome (\<lambda>d. st\<lparr>dynamics_M4 := d\<rparr>)
     (compute_dynamics pl (dynamics_M4 st) (word_of_int (servo_read M4 st)))"

definition plan_M5 :: "platform \<Rightarrow> robot \<Rightarrow> robot outcome" where
  "plan_M5 pl st = map_outcome (\<lambda>d. st\<lparr>dynamics_M5 := d\<rparr>)
     (compute_dynamics pl (dynamics_M5 st) (word_of_int (servo_read M5 st)))"

definition plan_all :: "platform \<Rightarrow> robot \<Rightarrow> robot outcome" where
  "plan_all pl st =
     then_do (plan_M1 pl st) (\<lambda>s1.
     then_do (plan_M2 pl s1) (\<lambda>s2.
     then_do (plan_M3 pl s2) (\<lambda>s3.
     then_do (plan_M4 pl s3) (\<lambda>s4.
     plan_M5 pl s4))))"

text \<open>
  The five plans in a row return when the division by zero returns, or when no axis
  stands at its stored target.
\<close>

definition plans_return :: "platform \<Rightarrow> robot \<Rightarrow> bool" where
  "plans_return pl st =
     (div_by_zero pl \<noteq> None
      \<or> (angle_tf (dynamics_M1 st) \<noteq> word_of_int (servo_read M1 st)
         \<and> angle_tf (dynamics_M2 st) \<noteq> word_of_int (servo_read M2 st)
         \<and> angle_tf (dynamics_M3 st) \<noteq> word_of_int (servo_read M3 st)
         \<and> angle_tf (dynamics_M4 st) \<noteq> word_of_int (servo_read M4 st)
         \<and> angle_tf (dynamics_M5 st) \<noteq> word_of_int (servo_read M5 st)))"

text \<open>
  The \<^verbatim>\<open>do ... while (t > TF)\<close> loop of \<^verbatim>\<open>reset_robot\<close>, over the successive readings of
  \<^verbatim>\<open>millis()\<close>; \<^verbatim>\<open>t\<close> is a \<^verbatim>\<open>long\<close>. The result is \<open>None\<close> when the readings
  given run out before the loop ends.
\<close>

fun reset_loop :: "platform \<Rightarrow> u32 \<Rightarrow> u32 list \<Rightarrow> robot \<Rightarrow> robot option" where
  "reset_loop pl t0 [] st = None"
| "reset_loop pl t0 (now # clock) st =
     (let t = now - t0;
          st' = write_all pl t st
      in if TF < sint t then reset_loop pl t0 clock st' else Some st')"

definition set_initial_targets :: "robot \<Rightarrow> robot" where
  "set_initial_targets st =
     st\<lparr>dynamics_M1 := (dynamics_M1 st)\<lparr>angle_tf := word_of_int ANGLE_INIT_M1\<rparr>,
        dynamics_M2 := (dynamics_M2 st)\<lparr>angle_tf := word_of_int ANGLE_INIT_M2\<rparr>,
        dynamics_M3 := (dynamics_M3 st)\<lparr>angle_tf := word_of_int ANGLE_INIT_M3\<rparr>,
        dynamics_M4 := (dynamics_M4 st)\<lparr>angle_tf := word_of_int ANGLE_INIT_M4\<rparr>,
        dynamics_M5 := (dynamics_M5 st)\<lparr>angle_tf := word_of_int ANGLE_INIT_M5\<rparr>\<rparr>"

definition reset_robot :: "platform \<Rightarrow> u32 list \<Rightarrow> robot \<Rightarrow> robot outcome option" where
  "reset_robot pl clock st =
     (case plan_all pl (set_initial_targets st) of
        Killed s \<Rightarrow> Some (Killed s)
      | Returned s \<Rightarrow>
          (case clock of
             [] \<Rightarrow> None
           | t0 # rest \<Rightarrow> map_option Returned (reset_loop pl t0 rest s)))"

section \<open>Command interpreter\<close>

text \<open>The \<^verbatim>\<open>single_motor_mode\<close> branch of \<^verbatim>\<open>loop\<close>: a line \<^verbatim>\<open>MX.%%%\<close>.\<close>

definition motor_command :: "platform \<Rightarrow> string \<Rightarrow> robot \<Rightarrow> robot outcome" where
  "motor_command pl input st =
     (let st1 = print (''> '' @ input) st;
          st2 = st1\<lparr>motor_id := char_at input 1\<rparr>;
          percent_buf = [char_at input 3, char_at input 4, char_at input 5];
          percent = toInt percent_buf;
          st3 =
            (if motor_id st2 = CHR ''1'' then
               plan_M1 pl (st2\<lparr>dynamics_M1 := (dynamics_M1 st2)
                             \<lparr>angle_tf := word_of_int (map_long percent 0 100 0 RANGE_M1)\<rparr>\<rparr>)
             else if motor_id st2 = CHR ''2'' then
               plan_M2 pl (st2\<lparr>dynamics_M2 := (dynamics_M2 st2)
                             \<lparr>angle_tf := word_of_int (map_long percent 0 100 RANGE_M2 0)\<rparr>\<rparr>)
             else if motor_id st2 = CHR ''3'' then
               plan_M3 pl (st2\<lparr>dynamics_M3 := (dynamics_M3 st2)
                             \<lparr>angle_tf := word_of_int (map_long percent 0 100 RANGE_M3 0)\<rparr>\<rparr>)
             else if motor_id st2 = CHR ''4'' then
               plan_M4 pl (st2\<lparr>dynamics_M4 := (dynamics_M4 st2)
                             \<lparr>angle_tf := word_of_int (map_long percent 0 100 RANGE_M4 0)\<rparr>\<rparr>)
             else if motor_id st2 = CHR ''5'' then
               plan_M5 pl (st2\<lparr>dynamics_M5 := (dynamics_M5 st2)
                             \<lparr>angle_tf := word_of_int (map_long percent 0 100 0 RANGE_M5)\<rparr>\<rparr>)
             else Returned st2)
      in then_do st3 (\<lambda>s. Returned (s\<lparr>single_motor_running := True\<rparr>)))"

text \<open>The \<^verbatim>\<open>cartesian_mode\<close> branch of \<^verbatim>\<open>loop\<close>: a line \<^verbatim>\<open>SXXX.YYY.ZZZ\<close>.\<close>

definition parse_position :: "string \<Rightarrow> cartesian_position_t \<Rightarrow> cartesian_position_t" where
  "parse_position input pos =
     (let px = toInt [char_at input 0, char_at input 1, char_at input 2, char_at input 3];
          py = toInt [char_at input 5, char_at input 6, char_at input 7];
          pz = toInt [char_at input 9, char_at input 10, char_at input 11]
      in pos\<lparr>pos_x := word_of_int px, pos_y := word_of_int py, pos_z := word_of_int pz\<rparr>)"

definition cartesian_command ::
    "platform \<Rightarrow> (cartesian_position_t \<Rightarrow> solved) \<Rightarrow> string \<Rightarrow> robot \<Rightarrow> robot outcome" where
  "cartesian_command pl solve input st =
     (let st1 = st\<lparr>cartesian_pos := parse_position input (cartesian_pos st)\<rparr>;
          st2 = get_angles_from_cartesian solve st1
      in then_do (plan_all pl st2) (\<lambda>st3.
           let st4 = print ''> Input position:'' st3;
               st5 = print ([CHR 0x09] @ ''x='' @ String_of (sint (pos_x (cartesian_pos st4)))) st4;
               st6 = print ([CHR 0x09] @ ''y='' @ String_of (sint (pos_y (cartesian_pos st5)))) st5;
               st7 = print ([CHR 0x09] @ ''z='' @ String_of (sint (pos_z (cartesian_pos st6))) @ [CHR 0x0A]) st6
           in Returned (st7\<lparr>five_axis_running := True\<rparr>)))"

text \<open>
  The part of \<^verbatim>\<open>loop\<close> that follows the polling loop. \<open>clock\<close> holds the readings of
  \<^verbatim>\<open>millis()\<close> that \<^verbatim>\<open>reset_robot\<close> takes. The result is \<open>None\<close> only when these
  readings run out.
\<close>

definition process_input ::
    "platform \<Rightarrow> (cartesian_position_t \<Rightarrow> solved) \<Rightarrow> u32 list \<Rightarrow> string \<Rightarrow> robot
      \<Rightarrow> robot outcome option" where
  "process_input pl solve clock input st =
     (let st0 = st\<lparr>single_motor_running := False, five_axis_running := False\<rparr> in
      if input = ''motor'' @ [CHR 0x0A] then
        Some (Returned (println ''Single motor mode accessed. Format: MX.%%%''
               (st0\<lparr>single_motor_mode := True, cartesian_mode := False\<rparr>)))
      else if input = ''reset'' @ [CHR 0x0A] then
        map_option (\<lambda>r. then_do r (\<lambda>st1. Returned (println ''The robot has been reset.'' st1)))
          (reset_robot pl clock (st0\<lparr>single_motor_mode := False, cartesian_mode := False\<rparr>))
      else
        Some (then_do
               (if single_motor_mode st0 then motor_command pl input st0
                else if cartesian_mode st0 then cartesian_command pl solve input st0
                else Returned (println ''Error(loop): Unknown command'' st0))
               (\<lambda>st1. Returned (if \<not> is_delta_positive st1
                                 then println ''Error(loop): Too low acceleration'' st1
                                 else st1))))"

text \<open>
  One pass of \<^verbatim>\<open>loop\<close>: \<open>t0\<close> is the reading of the clock on entry, \<open>polls\<close> the
  readings of the iterations of the polling loop, \<open>input\<close> the line received.
\<close>

definition loop :: "platform \<Rightarrow> (cartesian_position_t \<Rightarrow> solved) \<Rightarrow> u32 \<Rightarrow> u32 list
    \<Rightarrow> u32 list \<Rightarrow> string \<Rightarrow> robot \<Rightarrow> robot outcome option" where
  "loop pl solve t0 polls clock input st =
     process_input pl solve clock input (scheduler pl t0 polls st)"

text \<open>
  The lines the single-motor claims are about: \<^verbatim>\<open>M<id>.<ppp>\<close> followed by a line feed,
  \<open>ppp\<close> being the three decimal digits of a percentage.
\<close>

definition ppp :: "nat \<Rightarrow> string" where
  "ppp p = [char_of (48 + p div 100 mod 10), char_of (48 + p div 10 mod 10), char_of (48 + p mod 10)]"

definition motor_line :: "char \<Rightarrow> nat \<Rightarrow> string" where
  "motor_line c p = [CHR ''M'', c, CHR ''.''] @ ppp p @ [CHR 0x0A]"

section \<open>Start-up\<close>

definition zero_dynamics :: motor_dynamics_t where
  "zero_dynamics = \<lparr>forward = False, t1 = 0, t2 = 0, angle_t0 = 0, angle_t1 = 0,
     angle_t2 = 0, angle_tf = 0, delta = 0\<rparr>"

definition power_on :: robot where
  "power_on = \<lparr>servos = (\<lambda>m. 0), written = [],
     dynamics_M1 = zero_dynamics, dynamics_M2 = zero_dynamics, dynamics_M3 = zero_dynamics,
     dynamics_M4 = zero_dynamics, dynamics_M5 = zero_dynamics,
     cartesian_pos = \<lparr>pos_x = 0, pos_y = 0, pos_z = 0, yaw = 0, pitch = 0\<rparr>,
     motor_id = CHR 0x00,
     single_motor_mode = False, cartesian_mode = False,
     single_motor_running = False, five_axis_running = False,
     serial_out = []\<rparr>"

definition initialise_robot :: "robot \<Rightarrow> robot" where
  "initialise_robot st =
     servo_write M5 ANGLE_INIT_M5
      (servo_write M4 ANGLE_INIT_M4
        (servo_write M3 ANGLE_INIT_M3
          (servo_write M2s ANGLE_INIT_M2
            (servo_write M2 ANGLE_INIT_M2
              (servo_write M1 ANGLE_INIT_M1 st)))))"

text \<open>
  Two platforms on which the definitions can be evaluated. Both keep the low 8 bits of an
  out-of-range value converted to \<^verbatim>\<open>uint8_t\<close>. On \<open>low_byte\<close> the division by zero
  returns 0 and a NaN converts to 0; on \<open>trapping\<close> the division by zero stops the program
  and a NaN converts to the most negative \<^verbatim>\<open>int\<close>.
\<close>

definition low_byte :: platform where
  "low_byte = \<lparr>div_by_zero = Some 0, nan_is_min = False,
     oor_to_u8 = (\<lambda>x. word_of_int (trunc x))\<rparr>"

definition trapping :: platform where
  "trapping = \<lparr>div_by_zero = None, nan_is_min = True,
     oor_to_u8 = (\<lambda>x. word_of_int (trunc x))\<rparr>"

section \<open>Concrete states and inputs\<close>

text \<open>A state in which the profile of axis 3 is infeasible while all five axes are running.\<close>

definition blocked :: robot where
  "blocked = power_on\<lparr>dynamics_M3 := zero_dynamics\<lparr>delta := - 24320\<rparr>, five_axis_running := True\<rparr>"

text \<open>The robot after start-up, in single-motor mode and with the cartesian mode flag set.\<close>

definition motor_ready :: robot where
  "motor_ready = (initialise_robot power_on)\<lparr>single_motor_mode := True\<rparr>"

definition cartesian_ready :: robot where
  "cartesian_ready = (initialise_robot power_on)\<lparr>cartesian_mode := True\<rparr>"

text \<open>
  The robot after start-up, once every axis has been moved away from its initial angle
  (axis 3 to 100 degrees).
\<close>

definition moved :: robot where
  "moved = servo_write M5 170 (servo_write M4 80 (servo_write M3 100
     (servo_write M2s 170 (servo_write M2 170 (servo_write M1 80 (initialise_robot power_on))))))"

text \<open>The backward move planned from 100 degrees to the target 50 degrees.\<close>

definition back_50 :: motor_dynamics_t where
  "back_50 = planned low_byte (zero_dynamics\<lparr>angle_tf := 50\<rparr>) 100"

text \<open>
  What lines 335 to 355 of the source compute for two targets with yaw and pitch 0 (the
  wrist lies 35 mm below the target). For \<open>x = 0\<close>, \<open>y = 6\<close>, \<open>z = 291\<close> the five
  expressions passed to \<^verbatim>\<open>round\<close> are about 90.00, 258.98, 160.07, 131.96 and 161.97;
  for \<open>x = 0\<close>, \<open>y = 100\<close>, \<open>z = 200\<close> they are about 90.00, 151.94, 172.33, 125.25 and
  210.02.
\<close>

definition solve_0_6_291 :: "cartesian_position_t \<Rightarrow> solved" where
  "solve_0_6_291 pos = \<lparr>wrist = pos\<lparr>pos_z := pos_z pos - 35\<rparr>,
     round_M1 = 90, round_M2 = 259, round_M3 = 160, round_M4 = 132, round_M5 = 162\<rparr>"

definition solve_0_100_200 :: "cartesian_position_t \<Rightarrow> solved" where
  "solve_0_100_200 pos = \<lparr>wrist = pos\<lparr>pos_z := pos_z pos - 35\<rparr>,
     round_M1 = 90, round_M2 = 152, round_M3 = 172, round_M4 = 125, round_M5 = 210\<rparr>"

definition target_0_6_291 :: robot where
  "target_0_6_291 = (initialise_robot power_on)
     \<lparr>cartesian_pos := \<lparr>pos_x = 0, pos_y = 6, pos_z = 291, yaw = 0, pitch = 0\<rparr>,
      cartesian_mode := True\<rparr>"

section \<open>Arithmetic of the conversions\<close>

lemma trunc_of_int [simp]: "trunc (real_of_int k) = k"
  by (simp add: trunc_def)

lemma trunc_divide: "0 < q \<Longrightarrow> trunc (real_of_int p / real_of_int q) = c_div p q"
proof (cases "0 \<le> p")
  case True
  assume q: "0 < q"
  with True have "0 \<le> real_of_int p / real_of_int q" by simp
  then have "trunc (real_of_int p / real_of_int q) = p div q"
    by (simp add: trunc_def floor_divide_of_int_eq)
  also have "\<dots> = c_div p q" using True q
    by (cases "p = 0") (simp_all add: c_div_def)
  finally show ?thesis .
next
  case False
  assume q: "0 < q"
  with False have neg: "real_of_int p / real_of_int q < 0"
    by (simp add: divide_neg_pos)
  have "\<lceil>real_of_int p / real_of_int q\<rceil> = - \<lfloor>real_of_int (- p) / real_of_int q\<rfloor>"
    by (simp add: ceiling_def)
  also have "\<dots> = - ((- p) div q)"
    by (simp only: floor_divide_of_int_eq)
  finally have "trunc (real_of_int p / real_of_int q) = - ((- p) div q)"
    using neg by (simp add: trunc_def)
  also have "\<dots> = c_div p q" using False q
    by (simp add: c_div_def)
  finally show ?thesis .
qed

lemma to_u8_of_int: "0 \<le> k \<Longrightarrow> k \<le> 255 \<Longrightarrow> to_u8 pl (real_of_int k) = word_of_int k"
  by (simp add: to_u8_def)

lemma to_u8_of_nat: "n \<le> 255 \<Longrightarrow> to_u8 pl (real n) = of_nat n"
  using to_u8_of_int [of "int n" pl] by simp

lemma to_u8_unat [simp]: "to_u8 pl (real (unat (a :: u8))) = a"
proof -
  have "uint a < 256" using uint_lt2p [of a] by simp
  then have "to_u8 pl (real_of_int (uint a)) = word_of_int (uint a)"
    by (intro to_u8_of_int) simp_all
  moreover have "real (unat a) = real_of_int (uint a)"
    by simp
  ultimately show ?thesis by simp
qed

lemma to_u8_unsigned [simp]: "to_u8 pl (unsigned (a :: u8)) = a"
  using to_u8_unat [of pl a] by simp

lemma distance_eq:
  "to_u8 pl (sqrt ((real_of_int (uint (b :: u8) - uint (a :: u8)))\<^sup>2)) = word_of_int \<bar>uint b - uint a\<bar>"
proof -
  have a: "0 \<le> uint a" "uint a < 256" using uint_lt2p [of a] by simp_all
  have b: "0 \<le> uint b" "uint b < 256" using uint_lt2p [of b] by simp_all
  have "sqrt ((real_of_int (uint b - uint a))\<^sup>2) = real_of_int \<bar>uint b - uint a\<bar>"
    by simp
  moreover have "\<bar>uint b - uint a\<bar> \<le> 255" using a b by linarith
  ultimately show ?thesis
    using to_u8_of_int [of "\<bar>uint b - uint a\<bar>" pl] by simp
qed

lemma delta_eq:
  "trunc ((real_of_int (TF * ACC) / 1000)\<^sup>2 - real_of_int (4 * k * ACC)) = 230400 - 1280 * k"
proof -
  have "(real_of_int (TF * ACC) / 1000)\<^sup>2 - real_of_int (4 * k * ACC) = real_of_int (230400 - 1280 * k)"
    by (simp add: TF_def ACC_def power2_eq_square)
  then show ?thesis by (simp only: trunc_of_int)
qed

section \<open>The peak speed\<close>

lemma sqrt_230400: "sqrt 230400 = 480"
  by (rule real_sqrt_unique) simp_all

lemma sqrt_le_480: "dlt \<le> 230400 \<Longrightarrow> sqrt (real_of_int dlt) \<le> 480"
  by (rule real_le_lsqrt) simp_all

lemma speed_expr:
  assumes that: "dlt \<le> 230400" and nn: "0 \<le> dlt"
  shows "compute_speed pl dlt = \<lfloor>(480 - sqrt (real_of_int dlt)) / 2\<rfloor>"
proof -
  have "0 \<le> (480 - sqrt (real_of_int dlt)) / 2"
    using sqrt_le_480 [OF that] by simp
  moreover have "0.5 * (real_of_int (TF * ACC) / 1000 - sqrt (real_of_int dlt)) = (480 - sqrt (real_of_int dlt)) / 2"
    by (simp add: TF_def ACC_def)
  ultimately have "trunc (0.5 * (real_of_int (TF * ACC) / 1000 - sqrt (real_of_int dlt)))
      = \<lfloor>(480 - sqrt (real_of_int dlt)) / 2\<rfloor>"
    by (simp only: trunc_def if_True)
  then show ?thesis using nn
    by (simp only: compute_speed_def) simp
qed

lemma floor_half: 
  fixes y :: real
  assumes "real_of_int k \<le> y" "y < real_of_int k + 1"
  shows "\<lfloor>y / 2\<rfloor> = k div 2"
proof (rule floor_unique)
  have "2 * (k div 2) \<le> k" by simp
  then have "2 * real_of_int (k div 2) \<le> real_of_int k"
    by (metis of_int_le_iff of_int_mult of_int_numeral)
  with assms show "real_of_int (k div 2) \<le> y / 2" by simp
  have "k < 2 * (k div 2) + 2" by presburger
  then have "k + 1 \<le> 2 * (k div 2) + 2" by simp
  then have "real_of_int (k + 1) \<le> real_of_int (2 * (k div 2) + 2)"
    by (simp only: of_int_le_iff)
  then have "real_of_int k + 1 \<le> 2 * real_of_int (k div 2) + 2" by simp
  with assms show "y / 2 < real_of_int (k div 2) + 1" by simp
qed

lemma speed_char:
  assumes "0 \<le> m" "m \<le> 480" "dlt \<le> m * m" "m = 0 \<and> dlt = 0 \<or> (m - 1) * (m - 1) < dlt"
  shows "compute_speed pl dlt = (480 - m) div 2"
proof -
  have d0: "0 \<le> dlt" using assms(4)
  proof
    assume "m = 0 \<and> dlt = 0" then show ?thesis by simp
  next
    assume "(m - 1) * (m - 1) < dlt"
    moreover have "0 \<le> (m - 1) * (m - 1)" by simp
    ultimately show ?thesis by linarith
  qed
  have "m * m \<le> 480 * 480" using assms(1,2) by (intro mult_mono) simp_all
  then have d1: "dlt \<le> 230400" using assms(3) by simp
  have up: "sqrt (real_of_int dlt) \<le> real_of_int m"
  proof -
    have "real_of_int dlt \<le> (real_of_int m)\<^sup>2"
      using assms(3) by (metis of_int_le_iff of_int_mult power2_eq_square)
    then show ?thesis using assms(1) by (simp add: real_le_lsqrt)
  qed
  have lo: "real_of_int m - 1 < sqrt (real_of_int dlt)"
    using assms(4)
  proof
    assume "m = 0 \<and> dlt = 0" then show ?thesis by simp
  next
    assume a: "(m - 1) * (m - 1) < dlt"
    show ?thesis
    proof (cases "m = 0")
      case True
      have "0 \<le> sqrt (real_of_int dlt)" using d0 by simp
      then have "- 1 < sqrt (real_of_int dlt)" by linarith
      with True show ?thesis by simp
    next
      case False
      with assms(1) have m1: "0 \<le> real_of_int (m - 1)" by simp
      have "(real_of_int (m - 1))\<^sup>2 < real_of_int dlt"
        using a by (metis of_int_less_iff of_int_mult power2_eq_square)
      then have "real_of_int (m - 1) < sqrt (real_of_int dlt)"
        using m1 by (simp add: real_less_rsqrt)
      then show ?thesis by simp
    qed
  qed
  have "\<lfloor>(480 - sqrt (real_of_int dlt)) / 2\<rfloor> = (480 - m) div 2"
    using up lo by (intro floor_half) simp_all
  then show ?thesis using speed_expr [OF d1 d0, of pl] by simp
qed

lemma speed_bounds:
  assumes "0 \<le> dlt" "dlt \<le> 230400"
  shows "0 \<le> compute_speed pl dlt" "compute_speed pl dlt \<le> 240"
proof -
  have up: "sqrt (real_of_int dlt) \<le> 480"
    using sqrt_le_480 [OF assms(2)] .
  have lo: "0 \<le> sqrt (real_of_int dlt)" using assms(1) by simp
  have e: "compute_speed pl dlt = \<lfloor>(480 - sqrt (real_of_int dlt)) / 2\<rfloor>"
    using speed_expr [OF assms(2) assms(1)] .
  show "0 \<le> compute_speed pl dlt" unfolding e using up by simp
  have "(480 - sqrt (real_of_int dlt)) / 2 \<le> real_of_int 240" using lo by simp
  then have "\<lfloor>(480 - sqrt (real_of_int dlt)) / 2\<rfloor> \<le> 240"
    by (simp only: floor_le_iff)
  then show "compute_speed pl dlt \<le> 240" unfolding e .
qed

lemma speed_zero_iff:
  assumes "0 \<le> dlt" "dlt \<le> 230400"
  shows "compute_speed pl dlt = 0 \<longleftrightarrow> 228484 < dlt"
proof -
  have e: "compute_speed pl dlt = \<lfloor>(480 - sqrt (real_of_int dlt)) / 2\<rfloor>"
    using speed_expr [OF assms(2) assms(1)] .
  have nn: "0 \<le> compute_speed pl dlt" using speed_bounds(1) [OF assms] .
  have s478: "sqrt 228484 = 478" by (rule real_sqrt_unique) simp_all
  have "compute_speed pl dlt = 0 \<longleftrightarrow> compute_speed pl dlt < 1" using nn by linarith
  also have "\<dots> \<longleftrightarrow> (480 - sqrt (real_of_int dlt)) / 2 < 1"
    unfolding e by (simp add: floor_less_iff)
  also have "\<dots> \<longleftrightarrow> sqrt 228484 < sqrt (real_of_int dlt)"
    unfolding s478 by auto
  also have "\<dots> \<longleftrightarrow> 228484 < dlt"
    by (simp only: real_sqrt_less_iff) simp
  finally show ?thesis .
qed

section \<open>The planned profile\<close>

lemma distance_bounds: "0 \<le> distance dyn c" "distance dyn c \<le> 255"
proof -
  have a: "0 \<le> uint c" "uint c < 256" using uint_lt2p [of c] by simp_all
  have b: "0 \<le> uint (angle_tf dyn)" "uint (angle_tf dyn) < 256" using uint_lt2p [of "angle_tf dyn"] by simp_all
  show "0 \<le> distance dyn c" by (simp add: distance_def)
  show "distance dyn c \<le> 255" unfolding distance_def using a b by linarith
qed

lemma uint_distance: "uint (word_of_int (distance dyn c) :: u8) = distance dyn c"
  using distance_bounds [of dyn c] by (simp add: uint_word_of_int take_bit_int_eq_self)

lemma compute_distance_eq: "compute_distance pl dyn c = word_of_int (distance dyn c)"
  unfolding compute_distance_def distance_def by (rule distance_eq)

lemma distance_is_zero: "distance dyn c = 0 \<longleftrightarrow> angle_tf dyn = c"
  by (auto simp: distance_def word_uint_eq_iff)

lemma distance_zero_iff: "compute_distance pl dyn c = 0 \<longleftrightarrow> angle_tf dyn = c"
proof -
  have "(word_of_int (distance dyn c) :: u8) = 0 \<longleftrightarrow> distance dyn c = 0"
    using uint_distance [of dyn c] by (metis uint_0_eq word_of_int_0)
  then show ?thesis by (simp add: compute_distance_eq distance_is_zero)
qed

lemma plan_times_fields [simp]:
  "forward (plan_times pl dyn c) = (c < angle_tf dyn)"
  "angle_t0 (plan_times pl dyn c) = c"
  "angle_tf (plan_times pl dyn c) = angle_tf dyn"
  "angle_t1 (plan_times pl dyn c) = angle_t1 dyn"
  "angle_t2 (plan_times pl dyn c) = angle_t2 dyn"
  by (simp_all add: plan_times_def Let_def)

lemma plan_times_delta: "delta (plan_times pl dyn c) = 230400 - 1280 * distance dyn c"
proof -
  have "delta (plan_times pl dyn c)
      = trunc ((real_of_int (TF * ACC) / 1000)\<^sup>2 - real_of_int (4 * uint (word_of_int (distance dyn c) :: u8) * ACC))"
    by (simp only: plan_times_def Let_def compute_distance_eq) simp
  then show ?thesis by (simp only: delta_eq uint_distance)
qed

lemma plan_times_t1:
  "t1 (plan_times pl dyn c)
     = word_of_int (c_div (int32 (1000 * compute_speed pl (230400 - 1280 * distance dyn c))) 320)"
proof -
  have "t1 (plan_times pl dyn c)
      = word_of_int (c_div (int32 (1000 * compute_speed pl (trunc ((real_of_int (TF * ACC) / 1000)\<^sup>2 - real_of_int (4 * uint (word_of_int (distance dyn c) :: u8) * ACC))))) ACC)"
    by (simp only: plan_times_def Let_def compute_distance_eq) simp
  then show ?thesis by (simp only: delta_eq uint_distance) (simp add: ACC_def)
qed

lemma plan_times_t2: "t2 (plan_times pl dyn c) = 1500 - t1 (plan_times pl dyn c)"
  by (simp add: plan_times_def Let_def TF_def)

lemma plan_angles_fields [simp]:
  "forward (plan_angles pl s d) = forward d"
  "t1 (plan_angles pl s d) = t1 d"
  "t2 (plan_angles pl s d) = t2 d"
  "angle_t0 (plan_angles pl s d) = angle_t0 d"
  "angle_tf (plan_angles pl s d) = angle_tf d"
  "delta (plan_angles pl s d) = delta d"
  by (simp_all add: plan_angles_def Let_def)

lemma plan_angles_t1:
  "angle_t1 (plan_angles pl s d)
     = to_u8 pl (real (unat (angle_t0 d))
         + real_of_int (int32 (s * ACC)) * (real (unat (t1 d)) / 1000)\<^sup>2 / 2)"
  by (simp add: plan_angles_def Let_def)

lemma plan_angles_t2:
  "angle_t2 (plan_angles pl s d)
     = to_u8 pl (real (unat (angle_t1 (plan_angles pl s d)))
         + real (unat ((word_of_int (s * compute_speed pl (delta d)) :: u32) * (t2 d - t1 d))) / 1000)"
  by (simp add: plan_angles_def Let_def)

text \<open>The three ways the plan operation ends.\<close>

lemma compute_dynamics_killed:
  "angle_tf dyn = c \<Longrightarrow> div_by_zero pl = None
   \<Longrightarrow> compute_dynamics pl dyn c = Killed (plan_times pl dyn c)"
  by (simp add: compute_dynamics_def Let_def distance_zero_iff)

lemma compute_dynamics_zero:
  "angle_tf dyn = c \<Longrightarrow> div_by_zero pl = Some q
   \<Longrightarrow> compute_dynamics pl dyn c = Returned (plan_angles pl q (plan_times pl dyn c))"
  by (simp add: compute_dynamics_def Let_def distance_zero_iff)

lemma compute_dynamics_move:
  assumes "angle_tf dyn \<noteq> c"
  shows "compute_dynamics pl dyn c
       = Returned (plan_angles pl (c_div (uint (angle_tf dyn) - uint c) (distance dyn c)) (plan_times pl dyn c))"
proof -
  have nz: "compute_distance pl dyn c \<noteq> 0" using assms by (simp add: distance_zero_iff)
  have u: "uint (compute_distance pl dyn c) = distance dyn c"
    by (simp add: compute_distance_eq uint_distance)
  show ?thesis unfolding compute_dynamics_def Let_def using nz by (simp add: u)
qed

lemma compute_dynamics_returns:
  assumes "angle_tf dyn \<noteq> c \<or> div_by_zero pl \<noteq> None"
  shows "\<exists>s. compute_dynamics pl dyn c = Returned (plan_angles pl s (plan_times pl dyn c))"
proof (cases "angle_tf dyn = c")
  case True
  with assms obtain q where "div_by_zero pl = Some q" by auto
  with True show ?thesis using compute_dynamics_zero by blast
next
  case False
  then show ?thesis using compute_dynamics_move by blast
qed

lemma compute_dynamics_memory:
  "\<exists>s. compute_dynamics pl dyn c = Returned (plan_angles pl s (plan_times pl dyn c))
     \<or> compute_dynamics pl dyn c = Killed (plan_times pl dyn c)"
proof (cases "angle_tf dyn \<noteq> c \<or> div_by_zero pl \<noteq> None")
  case True
  then show ?thesis using compute_dynamics_returns by blast
next
  case False
  then show ?thesis using compute_dynamics_killed by blast
qed

lemma planned_fields [simp]:
  "forward (planned pl dyn c) = (c < angle_tf dyn)"
  "angle_t0 (planned pl dyn c) = c"
  "angle_tf (planned pl dyn c) = angle_tf dyn"
  using compute_dynamics_memory [of pl dyn c] by (auto simp: planned_def)

lemma planned_times:
  "t1 (planned pl dyn c) = t1 (plan_times pl dyn c)"
  "t2 (planned pl dyn c) = t2 (plan_times pl dyn c)"
  "delta (planned pl dyn c) = delta (plan_times pl dyn c)"
  using compute_dynamics_memory [of pl dyn c] by (auto simp: planned_def)

lemma dynamics_delta: "delta (planned pl dyn c) = 230400 - 1280 * distance dyn c"
  by (simp add: planned_times plan_times_delta)

lemma dynamics_t1:
  "t1 (planned pl dyn c)
     = word_of_int (c_div (int32 (1000 * compute_speed pl (230400 - 1280 * distance dyn c))) 320)"
  by (simp add: planned_times plan_times_t1)

lemma dynamics_t2: "t2 (planned pl dyn c) = 1500 - t1 (planned pl dyn c)"
  by (simp add: planned_times plan_times_t2)

lemma int32_id: "- 2147483648 \<le> k \<Longrightarrow> k < 2147483648 \<Longrightarrow> int32 k = k"
  by (simp add: int32_def signed_take_bit_int_eq_self)

lemma c_div_nonneg: "0 \<le> a \<Longrightarrow> 0 < b \<Longrightarrow> c_div a b = a div b"
  by (cases "a = 0") (simp_all add: c_div_def)

lemma feasible_iff: "0 \<le> delta (planned pl dyn c) \<longleftrightarrow> distance dyn c \<le> 180"
  by (simp add: dynamics_delta)

lemma feasible_uint_t1:
  assumes "distance dyn c \<le> 180"
  shows "uint (t1 (planned pl dyn c))
           = 1000 * compute_speed pl (230400 - 1280 * distance dyn c) div 320"
    and "uint (t1 (planned pl dyn c)) \<le> 750"
proof -
  let ?S = "compute_speed pl (230400 - 1280 * distance dyn c)"
  have d: "0 \<le> 230400 - 1280 * distance dyn c" "230400 - 1280 * distance dyn c \<le> 230400"
    using assms distance_bounds(1) [of dyn c] by simp_all
  have S: "0 \<le> ?S" "?S \<le> 240" using speed_bounds [OF d] by simp_all
  then have "int32 (1000 * ?S) = 1000 * ?S" by (intro int32_id) simp_all
  then have e: "t1 (planned pl dyn c) = word_of_int (1000 * ?S div 320)"
    using S by (simp add: dynamics_t1 c_div_nonneg)
  have lo: "0 \<le> 1000 * ?S div 320" using S by simp
  have "1000 * ?S div 320 \<le> 1000 * 240 div 320"
    using S by (intro zdiv_mono1) simp_all
  then have hi: "1000 * ?S div 320 \<le> 750" by simp
  show "uint (t1 (planned pl dyn c)) = 1000 * ?S div 320"
    unfolding e using lo hi by (simp add: uint_word_of_int take_bit_int_eq_self)
  then show "uint (t1 (planned pl dyn c)) \<le> 750" using hi by simp
qed

lemma feasible_uint_t2:
  assumes "distance dyn c \<le> 180"
  shows "uint (t2 (planned pl dyn c)) = 1500 - uint (t1 (planned pl dyn c))"
proof -
  have "uint (t1 (planned pl dyn c)) \<le> 750" using feasible_uint_t1(2) [OF assms] .
  then have "t1 (planned pl dyn c) \<le> 1500"
    by (simp add: word_le_def)
  then show ?thesis
    by (simp add: dynamics_t2 uint_minus_simple_alt)
qed

lemma feasible_times:
  assumes "distance dyn c \<le> 180"
  shows "t1 (planned pl dyn c) \<le> t2 (planned pl dyn c)"
    and "t2 (planned pl dyn c) \<le> 1500"
proof -
  have a: "uint (t1 (planned pl dyn c)) \<le> 750" using feasible_uint_t1(2) [OF assms] .
  have b: "uint (t2 (planned pl dyn c)) = 1500 - uint (t1 (planned pl dyn c))"
    using feasible_uint_t2 [OF assms] .
  have c: "0 \<le> uint (t1 (planned pl dyn c))" by simp
  show "t1 (planned pl dyn c) \<le> t2 (planned pl dyn c)"
    using a b by (simp add: word_le_def)
  show "t2 (planned pl dyn c) \<le> 1500"
    using b c by (simp add: word_le_def)
qed

text \<open>
  An infeasible plan: the peak speed is the conversion of a NaN, 0 or the most negative
  \<^verbatim>\<open>int\<close>, and \<^verbatim>\<open>1000 * SPEED\<close> is 0 in 32 bits in both cases.
\<close>

lemma nan_speed_times: "dlt < 0 \<Longrightarrow> int32 (1000 * compute_speed pl dlt) = 0"
  by (simp add: compute_speed_def nan_to_int_def int32_def)

lemma infeasible_times:
  assumes "180 < distance dyn c"
  shows "t1 (planned pl dyn c) = 0" and "t2 (planned pl dyn c) = 1500"
proof -
  have "230400 - 1280 * distance dyn c < 0" using assms by simp
  then have "int32 (1000 * compute_speed pl (230400 - 1280 * distance dyn c)) = 0"
    by (rule nan_speed_times)
  then show a: "t1 (planned pl dyn c) = 0" by (simp add: dynamics_t1 c_div_def)
  show "t2 (planned pl dyn c) = 1500" by (simp add: dynamics_t2 a)
qed

lemma zero_speed_times:
  assumes "compute_speed pl (230400 - 1280 * distance dyn c) = 0"
  shows "t1 (plan_times pl dyn c) = 0" and "t2 (plan_times pl dyn c) = 1500"
proof -
  show a: "t1 (plan_times pl dyn c) = 0"
    using assms by (simp add: plan_times_t1 int32_def c_div_def)
  show "t2 (plan_times pl dyn c) = 1500"
    using a by (simp add: plan_times_t2)
qed

lemma zero_speed_angles:
  assumes "t1 d = 0" and "compute_speed pl (delta d) = 0"
  shows "angle_t1 (plan_angles pl s d) = angle_t0 d"
    and "angle_t2 (plan_angles pl s d) = angle_t0 d"
proof -
  show a: "angle_t1 (plan_angles pl s d) = angle_t0 d"
    using assms(1) by (simp add: plan_angles_t1)
  show "angle_t2 (plan_angles pl s d) = angle_t0 d"
    using assms(2) by (simp add: plan_angles_t2 a)
qed

lemma sample_at_zero: "compute_angle pl dyn 0 = angle_t0 dyn"
  by (simp add: compute_angle_def)

lemma ucast_u8_u32 [simp]: "(ucast (ucast (a :: u8) :: u32) :: u8) = a"
  by (rule ucast_up_ucast_id) (simp add: is_up)

lemma sample_cruise_flat:
  assumes "t1 dyn = 0" "t2 dyn = 1500" "angle_t1 dyn = a" "angle_t2 dyn = a" "0 < t" "t \<le> 1500"
  shows "compute_angle pl dyn t = a"
proof -
  have "\<not> t \<le> 0" using assms(5) by (simp add: word_le_def word_less_def)
  then show ?thesis
    using assms by (simp add: compute_angle_def Let_def)
qed

lemma sample_at_TF:
  assumes "t1 dyn \<noteq> 0" "t1 dyn \<le> 750" "t2 dyn = 1500 - t1 dyn"
  shows "compute_angle pl dyn 1500 = angle_tf dyn"
proof -
  have u: "0 < uint (t1 dyn)" "uint (t1 dyn) \<le> 750"
    using assms(1,2) by (simp_all add: word_le_def word_less_def uint_0_iff order_less_le)
  then have "t1 dyn \<le> 1500" by (simp add: word_le_def)
  then have u2: "uint (t2 dyn) = 1500 - uint (t1 dyn)"
    using assms(3) by (simp add: uint_minus_simple_alt)
  have n1: "\<not> (1500 \<le> t1 dyn)" using u by (simp add: word_le_def)
  have n2: "\<not> (1500 \<le> t2 dyn)" using u u2 by (simp add: word_le_def)
  have n3: "t2 dyn < 1500" using u u2 by (simp add: word_less_def)
  show ?thesis
    using n1 n2 n3 by (simp add: compute_angle_def TF_def)
qed

lemma sample_after_TF:
  assumes "1500 < t" "t1 dyn \<le> 1500" "t2 dyn \<le> 1500"
  shows "compute_angle pl dyn t = angle_tf dyn"
proof -
  have "\<not> t \<le> t1 dyn" using assms(1,2) by (simp add: word_le_def word_less_def)
  moreover have "\<not> t \<le> t2 dyn" using assms(1,3) by (simp add: word_le_def word_less_def)
  moreover have "\<not> t \<le> 1500" using assms(1) by (simp add: word_le_def word_less_def)
  ultimately show ?thesis by (simp add: compute_angle_def TF_def)
qed

text \<open>Planning a move whose target is the current angle.\<close>

lemma same_angle_times:
  assumes "angle_tf dyn = a"
  shows "distance dyn a = 0"
    and "delta (plan_times pl dyn a) = 230400"
    and "compute_speed pl (delta (plan_times pl dyn a)) = 0"
    and "t1 (plan_times pl dyn a) = 0"
    and "t2 (plan_times pl dyn a) = 1500"
proof -
  show d: "distance dyn a = 0" using assms by (simp add: distance_def)
  show dl: "delta (plan_times pl dyn a) = 230400" by (simp add: plan_times_delta d)
  have s: "compute_speed pl (230400 - 1280 * distance dyn a) = 0"
    using speed_char [of 480 230400 pl] by (simp add: d)
  then show "compute_speed pl (delta (plan_times pl dyn a)) = 0" by (simp add: dl d)
  show "t1 (plan_times pl dyn a) = 0" "t2 (plan_times pl dyn a) = 1500"
    using zero_speed_times [OF s] by simp_all
qed

lemma same_angle_samples:
  assumes "angle_tf dyn = a"
  shows "compute_angle pl (plan_angles pl q (plan_times pl dyn a)) t = a"
proof -
  let ?p = "plan_angles pl q (plan_times pl dyn a)"
  note s = same_angle_times [OF assms]
  have z: "t1 ?p = 0" "t2 ?p = 1500" using s(4,5) by simp_all
  have an: "angle_t1 ?p = a" "angle_t2 ?p = a"
    using zero_speed_angles [OF s(4) s(3), where s = q] by simp_all
  show ?thesis
  proof (cases "t = 0")
    case True
    then show ?thesis by (simp add: sample_at_zero)
  next
    case False
    then have pos: "0 < t" by (simp add: word_neq_0_conv)
    show ?thesis
    proof (cases "t \<le> 1500")
      case True
      then show ?thesis using sample_cruise_flat [OF z(1) z(2) an(1) an(2) pos] by simp
    next
      case False
      then have "1500 < t" by simp
      then show ?thesis using sample_after_TF [of t ?p pl] z assms by simp
    qed
  qed
qed

section \<open>State of the firmware: projections\<close>

lemma servo_write_fields [simp]:
  "dynamics_M1 (servo_write m v st) = dynamics_M1 st"
  "dynamics_M2 (servo_write m v st) = dynamics_M2 st"
  "dynamics_M3 (servo_write m v st) = dynamics_M3 st"
  "dynamics_M4 (servo_write m v st) = dynamics_M4 st"
  "dynamics_M5 (servo_write m v st) = dynamics_M5 st"
  "servos (servo_write m v st) = (servos st)(m := v)"
  "written (servo_write m v st) = written st @ [(m, v)]"
  "serial_out (servo_write m v st) = serial_out st"
  "single_motor_running (servo_write m v st) = single_motor_running st"
  "five_axis_running (servo_write m v st) = five_axis_running st"
  "single_motor_mode (servo_write m v st) = single_motor_mode st"
  "cartesian_mode (servo_write m v st) = cartesian_mode st"
  "motor_id (servo_write m v st) = motor_id st"
  "cartesian_pos (servo_write m v st) = cartesian_pos st"
  by (simp_all add: servo_write_def)

lemma print_fields [simp]:
  "dynamics_M1 (print s st) = dynamics_M1 st"
  "dynamics_M2 (print s st) = dynamics_M2 st"
  "dynamics_M3 (print s st) = dynamics_M3 st"
  "dynamics_M4 (print s st) = dynamics_M4 st"
  "dynamics_M5 (print s st) = dynamics_M5 st"
  "servos (print s st) = servos st"
  "written (print s st) = written st"
  "serial_out (print s st) = serial_out st @ s"
  "single_motor_running (print s st) = single_motor_running st"
  "five_axis_running (print s st) = five_axis_running st"
  "single_motor_mode (print s st) = single_motor_mode st"
  "cartesian_mode (print s st) = cartesian_mode st"
  "motor_id (print s st) = motor_id st"
  "cartesian_pos (print s st) = cartesian_pos st"
  by (simp_all add: print_def)

lemma gate_closed:
  assumes "delta (dynamics_M1 st) < 0 \<or> delta (dynamics_M2 st) < 0 \<or> delta (dynamics_M3 st) < 0
         \<or> delta (dynamics_M4 st) < 0 \<or> delta (dynamics_M5 st) < 0"
  shows "\<not> is_delta_positive st"
  using assms by (auto simp: is_delta_positive_def)

lemma scheduler_closed:
  "\<not> is_delta_positive st \<Longrightarrow> scheduler pl t0 clock st = st"
  by (induction clock) (simp_all add: scheduler_iteration_def)

section \<open>Parsing a command line\<close>

lemma digit_char:
  assumes "k < 10"
  shows "is_digit (char_of (48 + k))" "\<not> is_space (char_of (48 + k))"
    "char_of (48 + k) \<noteq> CHR ''-''" "char_of (48 + k) \<noteq> CHR ''+''"
    "(of_char (char_of (48 + k) :: char) :: int) = 48 + int k"
proof -
  have n: "(of_char (char_of (48 + k) :: char) :: nat) = 48 + k"
    using assms by simp
  have ne: "char_of (48 + k) \<noteq> c" if "(of_char c :: nat) < 48" for c :: char
    using that n by auto
  show "is_digit (char_of (48 + k))" using assms by (simp add: is_digit_def n)
  have "char_of (48 + k) \<noteq> CHR '' ''" by (rule ne) simp
  then show "\<not> is_space (char_of (48 + k))" using assms by (simp add: is_space_def n)
  show "char_of (48 + k) \<noteq> CHR ''-''" by (rule ne) simp
  show "char_of (48 + k) \<noteq> CHR ''+''" by (rule ne) simp
  have "(of_char (char_of (48 + k) :: char) :: int) = int (of_char (char_of (48 + k) :: char))"
    by (simp only: of_nat_of_char)
  then show "(of_char (char_of (48 + k) :: char) :: int) = 48 + int k"
    by (simp only: n)
qed

lemma digits_value_digit:
  "k < 10 \<Longrightarrow> digits_value acc (char_of (48 + k) # cs) = digits_value (10 * acc + int k) cs"
  by (simp add: digit_char)

lemma toInt_digits:
  assumes "a < 10" "b < 10" "c < 10"
  shows "toInt [char_of (48 + a), char_of (48 + b), char_of (48 + c)] = int (100 * a + 10 * b + c)"
proof -
  have "dropWhile is_space [char_of (48 + a), char_of (48 + b), char_of (48 + c)]
      = [char_of (48 + a), char_of (48 + b), char_of (48 + c)]"
    using digit_char(2) [OF assms(1)] by simp
  then have "toInt [char_of (48 + a), char_of (48 + b), char_of (48 + c)]
      = digits_value 0 [char_of (48 + a), char_of (48 + b), char_of (48 + c)]"
    using digit_char(3,4) [OF assms(1)] by (simp add: toInt_def)
  also have "\<dots> = digits_value (int a) [char_of (48 + b), char_of (48 + c)]"
    using digits_value_digit [OF assms(1), of 0] by simp
  also have "\<dots> = digits_value (10 * int a + int b) [char_of (48 + c)]"
    using digits_value_digit [OF assms(2)] by simp
  also have "\<dots> = digits_value (10 * (10 * int a + int b) + int c) []"
    using digits_value_digit [OF assms(3)] by simp
  finally show ?thesis by simp
qed

lemma three_digits: "p < 1000 \<Longrightarrow> 100 * (p div 100 mod 10) + 10 * (p div 10 mod 10) + p mod 10 = (p::nat)"
proof -
  assume "p < 1000"
  then have a: "p div 100 mod 10 = p div 100" by simp
  have b: "p div 100 = p div 10 div 10"
    using div_mult2_eq [of p 10 10] by simp
  define Q where "Q = p div 10"
  define X where "X = Q div 10"
  define Y where "Y = Q mod 10"
  define R where "R = p mod 10"
  have 1: "Q = 10 * X + Y" unfolding X_def Y_def by simp
  have 2: "p = 10 * Q + R" unfolding Q_def R_def by simp
  have "100 * X + 10 * Y + R = p" using 1 2 by linarith
  then have "100 * (p div 10 div 10) + 10 * (p div 10 mod 10) + p mod 10 = p"
    unfolding X_def Y_def R_def Q_def .
  moreover have "p div 100 mod 10 = p div 10 div 10" using a b by simp
  ultimately show ?thesis by (simp only:)
qed

lemma toInt_ppp:
  assumes "p < 1000"
  shows "toInt (ppp p) = int p"
proof -
  have "toInt (ppp p) = int (100 * (p div 100 mod 10) + 10 * (p div 10 mod 10) + p mod 10)"
    unfolding ppp_def by (rule toInt_digits) simp_all
  then show ?thesis using three_digits [OF assms] by (simp only:)
qed

lemma motor_line_chars:
  "char_at (motor_line c p) 1 = c"
  "[char_at (motor_line c p) 3, char_at (motor_line c p) 4, char_at (motor_line c p) 5] = ppp p"
  by (simp_all add: motor_line_def char_at_def ppp_def)

lemma motor_line_not_keyword:
  "motor_line c p \<noteq> ''motor'' @ [CHR 0x0A]" "motor_line c p \<noteq> ''reset'' @ [CHR 0x0A]"
  by (simp_all add: motor_line_def ppp_def)

lemma println_fields [simp]:
  "dynamics_M1 (println s st) = dynamics_M1 st"
  "dynamics_M2 (println s st) = dynamics_M2 st"
  "dynamics_M3 (println s st) = dynamics_M3 st"
  "dynamics_M4 (println s st) = dynamics_M4 st"
  "dynamics_M5 (println s st) = dynamics_M5 st"
  "servos (println s st) = servos st"
  "written (println s st) = written st"
  "single_motor_running (println s st) = single_motor_running st"
  "five_axis_running (println s st) = five_axis_running st"
  "single_motor_mode (println s st) = single_motor_mode st"
  "cartesian_mode (println s st) = cartesian_mode st"
  "motor_id (println s st) = motor_id st"
  "cartesian_pos (println s st) = cartesian_pos st"
  by (simp_all add: println_def)

section \<open>Outcomes\<close>

lemma memory_then_do_field:
  assumes "\<And>s. f (g s) = f s"
  shows "f (memory (then_do x (\<lambda>s. Returned (g s)))) = f (memory x)"
  using assms by (cases x) simp_all

lemma then_do_Returned: "x = Returned s \<Longrightarrow> then_do x f = f s"
  by simp

lemma then_do_Killed: "x = Killed s \<Longrightarrow> then_do x f = Killed s"
  by simp

lemma memory_map_outcome: "memory (map_outcome f x) = f (memory x)"
  by (cases x) simp_all

lemma memory_plan:
  "memory (plan_M1 pl st) = st\<lparr>dynamics_M1 := planned pl (dynamics_M1 st) (word_of_int (servo_read M1 st))\<rparr>"
  "memory (plan_M2 pl st) = st\<lparr>dynamics_M2 := planned pl (dynamics_M2 st) (word_of_int (servo_read M2 st))\<rparr>"
  "memory (plan_M3 pl st) = st\<lparr>dynamics_M3 := planned pl (dynamics_M3 st) (word_of_int (servo_read M3 st))\<rparr>"
  "memory (plan_M4 pl st) = st\<lparr>dynamics_M4 := planned pl (dynamics_M4 st) (word_of_int (servo_read M4 st))\<rparr>"
  "memory (plan_M5 pl st) = st\<lparr>dynamics_M5 := planned pl (dynamics_M5 st) (word_of_int (servo_read M5 st))\<rparr>"
  by (simp_all add: plan_M1_def plan_M2_def plan_M3_def plan_M4_def plan_M5_def planned_def memory_map_outcome)

lemma plan_returned:
  "compute_dynamics pl (dynamics_M1 st) (word_of_int (servo_read M1 st)) = Returned d
     \<Longrightarrow> plan_M1 pl st = Returned (st\<lparr>dynamics_M1 := d\<rparr>)"
  "compute_dynamics pl (dynamics_M2 st) (word_of_int (servo_read M2 st)) = Returned d
     \<Longrightarrow> plan_M2 pl st = Returned (st\<lparr>dynamics_M2 := d\<rparr>)"
  "compute_dynamics pl (dynamics_M3 st) (word_of_int (servo_read M3 st)) = Returned d
     \<Longrightarrow> plan_M3 pl st = Returned (st\<lparr>dynamics_M3 := d\<rparr>)"
  "compute_dynamics pl (dynamics_M4 st) (word_of_int (servo_read M4 st)) = Returned d
     \<Longrightarrow> plan_M4 pl st = Returned (st\<lparr>dynamics_M4 := d\<rparr>)"
  "compute_dynamics pl (dynamics_M5 st) (word_of_int (servo_read M5 st)) = Returned d
     \<Longrightarrow> plan_M5 pl st = Returned (st\<lparr>dynamics_M5 := d\<rparr>)"
  by (simp_all add: plan_M1_def plan_M2_def plan_M3_def plan_M4_def plan_M5_def)

lemma plan_killed:
  "compute_dynamics pl (dynamics_M1 st) (word_of_int (servo_read M1 st)) = Killed d
     \<Longrightarrow> plan_M1 pl st = Killed (st\<lparr>dynamics_M1 := d\<rparr>)"
  by (simp add: plan_M1_def)

section \<open>The single-motor command\<close>

lemma process_motor_line:
  assumes "single_motor_mode st"
  shows "process_input pl solve clock (motor_line c p) st
       = Some (then_do (motor_command pl (motor_line c p)
                          (st\<lparr>single_motor_running := False, five_axis_running := False\<rparr>))
                 (\<lambda>st1. Returned (if \<not> is_delta_positive st1
                                   then println ''Error(loop): Too low acceleration'' st1
                                   else st1)))"
proof -
  have m: "single_motor_mode (st\<lparr>single_motor_running := False, five_axis_running := False\<rparr>)"
    using assms by simp
  show ?thesis
    unfolding process_input_def Let_def
    by (simp only: motor_line_not_keyword if_False m if_True)
qed

lemma motor_command_line:
  "motor_command pl (motor_line CHR ''1'' p) st
     = then_do (plan_M1 pl ((print (''> '' @ motor_line CHR ''1'' p) st)
           \<lparr>motor_id := CHR ''1'',
            dynamics_M1 := (dynamics_M1 st)\<lparr>angle_tf := word_of_int (map_long (toInt (ppp p)) 0 100 0 RANGE_M1)\<rparr>\<rparr>))
         (\<lambda>s. Returned (s\<lparr>single_motor_running := True\<rparr>))"
  "motor_command pl (motor_line CHR ''2'' p) st
     = then_do (plan_M2 pl ((print (''> '' @ motor_line CHR ''2'' p) st)
           \<lparr>motor_id := CHR ''2'',
            dynamics_M2 := (dynamics_M2 st)\<lparr>angle_tf := word_of_int (map_long (toInt (ppp p)) 0 100 RANGE_M2 0)\<rparr>\<rparr>))
         (\<lambda>s. Returned (s\<lparr>single_motor_running := True\<rparr>))"
  "motor_command pl (motor_line CHR ''3'' p) st
     = then_do (plan_M3 pl ((print (''> '' @ motor_line CHR ''3'' p) st)
           \<lparr>motor_id := CHR ''3'',
            dynamics_M3 := (dynamics_M3 st)\<lparr>angle_tf := word_of_int (map_long (toInt (ppp p)) 0 100 RANGE_M3 0)\<rparr>\<rparr>))
         (\<lambda>s. Returned (s\<lparr>single_motor_running := True\<rparr>))"
  "motor_command pl (motor_line CHR ''4'' p) st
     = then_do (plan_M4 pl ((print (''> '' @ motor_line CHR ''4'' p) st)
           \<lparr>motor_id := CHR ''4'',
            dynamics_M4 := (dynamics_M4 st)\<lparr>angle_tf := word_of_int (map_long (toInt (ppp p)) 0 100 RANGE_M4 0)\<rparr>\<rparr>))
         (\<lambda>s. Returned (s\<lparr>single_motor_running := True\<rparr>))"
  "motor_command pl (motor_line CHR ''5'' p) st
     = then_do (plan_M5 pl ((print (''> '' @ motor_line CHR ''5'' p) st)
           \<lparr>motor_id := CHR ''5'',
            dynamics_M5 := (dynamics_M5 st)\<lparr>angle_tf := word_of_int (map_long (toInt (ppp p)) 0 100 0 RANGE_M5)\<rparr>\<rparr>))
         (\<lambda>s. Returned (s\<lparr>single_motor_running := True\<rparr>))"
  unfolding motor_command_def Let_def motor_line_chars
  by simp_all

lemma motor_command_dynamics:
  "dynamics_M1 (memory (motor_command pl (motor_line CHR ''1'' p) st))
     = planned pl ((dynamics_M1 st)\<lparr>angle_tf := word_of_int (map_long (toInt (ppp p)) 0 100 0 RANGE_M1)\<rparr>)
         (word_of_int (servo_read M1 st))"
  "dynamics_M2 (memory (motor_command pl (motor_line CHR ''2'' p) st))
     = planned pl ((dynamics_M2 st)\<lparr>angle_tf := word_of_int (map_long (toInt (ppp p)) 0 100 RANGE_M2 0)\<rparr>)
         (word_of_int (servo_read M2 st))"
  "dynamics_M3 (memory (motor_command pl (motor_line CHR ''3'' p) st))
     = planned pl ((dynamics_M3 st)\<lparr>angle_tf := word_of_int (map_long (toInt (ppp p)) 0 100 RANGE_M3 0)\<rparr>)
         (word_of_int (servo_read M3 st))"
  "dynamics_M4 (memory (motor_command pl (motor_line CHR ''4'' p) st))
     = planned pl ((dynamics_M4 st)\<lparr>angle_tf := word_of_int (map_long (toInt (ppp p)) 0 100 RANGE_M4 0)\<rparr>)
         (word_of_int (servo_read M4 st))"
  "dynamics_M5 (memory (motor_command pl (motor_line CHR ''5'' p) st))
     = planned pl ((dynamics_M5 st)\<lparr>angle_tf := word_of_int (map_long (toInt (ppp p)) 0 100 0 RANGE_M5)\<rparr>)
         (word_of_int (servo_read M5 st))"
proof -
  have k: "f (memory (then_do x (\<lambda>s. Returned (s\<lparr>single_motor_running := True\<rparr>)))) = f (memory x)"
    if "\<And>s. f (s\<lparr>single_motor_running := True\<rparr>) = f s" for f :: "robot \<Rightarrow> motor_dynamics_t" and x
    using that by (rule memory_then_do_field)
  show "dynamics_M1 (memory (motor_command pl (motor_line CHR ''1'' p) st))
     = planned pl ((dynamics_M1 st)\<lparr>angle_tf := word_of_int (map_long (toInt (ppp p)) 0 100 0 RANGE_M1)\<rparr>)
         (word_of_int (servo_read M1 st))"
    unfolding motor_command_line by (subst k) (simp_all add: memory_plan servo_read_def print_def)
  show "dynamics_M2 (memory (motor_command pl (motor_line CHR ''2'' p) st))
     = planned pl ((dynamics_M2 st)\<lparr>angle_tf := word_of_int (map_long (toInt (ppp p)) 0 100 RANGE_M2 0)\<rparr>)
         (word_of_int (servo_read M2 st))"
    unfolding motor_command_line by (subst k) (simp_all add: memory_plan servo_read_def print_def)
  show "dynamics_M3 (memory (motor_command pl (motor_line CHR ''3'' p) st))
     = planned pl ((dynamics_M3 st)\<lparr>angle_tf := word_of_int (map_long (toInt (ppp p)) 0 100 RANGE_M3 0)\<rparr>)
         (word_of_int (servo_read M3 st))"
    unfolding motor_command_line by (subst k) (simp_all add: memory_plan servo_read_def print_def)
  show "dynamics_M4 (memory (motor_command pl (motor_line CHR ''4'' p) st))
     = planned pl ((dynamics_M4 st)\<lparr>angle_tf := word_of_int (map_long (toInt (ppp p)) 0 100 RANGE_M4 0)\<rparr>)
         (word_of_int (servo_read M4 st))"
    unfolding motor_command_line by (subst k) (simp_all add: memory_plan servo_read_def print_def)
  show "dynamics_M5 (memory (motor_command pl (motor_line CHR ''5'' p) st))
     = planned pl ((dynamics_M5 st)\<lparr>angle_tf := word_of_int (map_long (toInt (ppp p)) 0 100 0 RANGE_M5)\<rparr>)
         (word_of_int (servo_read M5 st))"
    unfolding motor_command_line by (subst k) (simp_all add: memory_plan servo_read_def print_def)
qed

lemma map_long_up: "0 \<le> x \<Longrightarrow> 0 \<le> r \<Longrightarrow> map_long x 0 100 0 r = x * r div 100"
  by (simp add: map_long_def c_div_nonneg)

lemma map_long_down: "0 \<le> x \<Longrightarrow> 0 \<le> r \<Longrightarrow> map_long x 0 100 r 0 = r - x * r div 100"
proof -
  assume a: "0 \<le> x" "0 \<le> r"
  then have "0 \<le> x * r" by simp
  then have "c_div (x * (0 - r)) 100 = - (x * r div 100)"
    by (cases "x * r = 0") (auto simp: c_div_def sgn_if)
  then show ?thesis by (simp add: map_long_def)
qed

lemma uint_byte: "0 \<le> k \<Longrightarrow> k \<le> 255 \<Longrightarrow> uint (word_of_int k :: u8) = k"
  by (simp add: uint_word_of_int take_bit_int_eq_self)

lemma scaled_le: "p \<le> 100 \<Longrightarrow> 0 \<le> r \<Longrightarrow> int p * r div 100 \<le> r"
proof -
  assume a: "p \<le> 100" "0 \<le> r"
  then have "int p * r \<le> 100 * r" by (intro mult_right_mono) simp_all
  then have "int p * r div 100 \<le> 100 * r div 100" by (intro zdiv_mono1) simp_all
  then show ?thesis by simp
qed

lemma target_up:
  assumes "p \<le> 100" "0 \<le> r" "r \<le> 255"
  shows "uint (word_of_int (map_long (int p) 0 100 0 r) :: u8) = int p * r div 100"
proof -
  have "0 \<le> int p * r div 100" using assms by (simp add: pos_imp_zdiv_nonneg_iff)
  moreover have "int p * r div 100 \<le> 255" using scaled_le [OF assms(1,2)] assms(3) by simp
  ultimately show ?thesis using assms by (simp add: map_long_up uint_byte)
qed

lemma target_down:
  assumes "p \<le> 100" "0 \<le> r" "r \<le> 255"
  shows "uint (word_of_int (map_long (int p) 0 100 r 0) :: u8) = r - int p * r div 100"
proof -
  have "0 \<le> int p * r div 100" using assms by (simp add: pos_imp_zdiv_nonneg_iff)
  moreover have "int p * r div 100 \<le> r" using scaled_le [OF assms(1,2)] .
  ultimately have "uint (word_of_int (r - int p * r div 100) :: u8) = r - int p * r div 100"
    using assms(3) by (intro uint_byte) simp_all
  moreover have "map_long (int p) 0 100 r 0 = r - int p * r div 100"
    using assms(2) by (intro map_long_down) simp_all
  ultimately show ?thesis by (simp only:)
qed

lemma is_delta_positive_println [simp]: "is_delta_positive (println s st) = is_delta_positive st"
  by (simp add: is_delta_positive_def)

lemma process_motor_line_dynamics:
  assumes "single_motor_mode st"
  shows "map_option (\<lambda>r. dynamics_M1 (memory r)) (process_input pl solve clock (motor_line c p) st)
       = Some (dynamics_M1 (memory (motor_command pl (motor_line c p)
                 (st\<lparr>single_motor_running := False, five_axis_running := False\<rparr>))))"
    and "map_option (\<lambda>r. dynamics_M2 (memory r)) (process_input pl solve clock (motor_line c p) st)
       = Some (dynamics_M2 (memory (motor_command pl (motor_line c p)
                 (st\<lparr>single_motor_running := False, five_axis_running := False\<rparr>))))"
    and "map_option (\<lambda>r. dynamics_M3 (memory r)) (process_input pl solve clock (motor_line c p) st)
       = Some (dynamics_M3 (memory (motor_command pl (motor_line c p)
                 (st\<lparr>single_motor_running := False, five_axis_running := False\<rparr>))))"
    and "map_option (\<lambda>r. dynamics_M4 (memory r)) (process_input pl solve clock (motor_line c p) st)
       = Some (dynamics_M4 (memory (motor_command pl (motor_line c p)
                 (st\<lparr>single_motor_running := False, five_axis_running := False\<rparr>))))"
    and "map_option (\<lambda>r. dynamics_M5 (memory r)) (process_input pl solve clock (motor_line c p) st)
       = Some (dynamics_M5 (memory (motor_command pl (motor_line c p)
                 (st\<lparr>single_motor_running := False, five_axis_running := False\<rparr>))))"
proof -
  let ?g = "\<lambda>st1. if \<not> is_delta_positive st1
                  then println ''Error(loop): Too low acceleration'' st1 else st1"
  have k: "f (memory (then_do x (\<lambda>s. Returned (?g s)))) = f (memory x)"
    if "\<And>s. f (?g s) = f s" for f :: "robot \<Rightarrow> motor_dynamics_t" and x
    using that by (rule memory_then_do_field)
  show "map_option (\<lambda>r. dynamics_M1 (memory r)) (process_input pl solve clock (motor_line c p) st)
       = Some (dynamics_M1 (memory (motor_command pl (motor_line c p)
                 (st\<lparr>single_motor_running := False, five_axis_running := False\<rparr>))))"
    unfolding process_motor_line [OF assms] by (simp add: k)
  show "map_option (\<lambda>r. dynamics_M2 (memory r)) (process_input pl solve clock (motor_line c p) st)
       = Some (dynamics_M2 (memory (motor_command pl (motor_line c p)
                 (st\<lparr>single_motor_running := False, five_axis_running := False\<rparr>))))"
    unfolding process_motor_line [OF assms] by (simp add: k)
  show "map_option (\<lambda>r. dynamics_M3 (memory r)) (process_input pl solve clock (motor_line c p) st)
       = Some (dynamics_M3 (memory (motor_command pl (motor_line c p)
                 (st\<lparr>single_motor_running := False, five_axis_running := False\<rparr>))))"
    unfolding process_motor_line [OF assms] by (simp add: k)
  show "map_option (\<lambda>r. dynamics_M4 (memory r)) (process_input pl solve clock (motor_line c p) st)
       = Some (dynamics_M4 (memory (motor_command pl (motor_line c p)
                 (st\<lparr>single_motor_running := False, five_axis_running := False\<rparr>))))"
    unfolding process_motor_line [OF assms] by (simp add: k)
  show "map_option (\<lambda>r. dynamics_M5 (memory r)) (process_input pl solve clock (motor_line c p) st)
       = Some (dynamics_M5 (memory (motor_command pl (motor_line c p)
                 (st\<lparr>single_motor_running := False, five_axis_running := False\<rparr>))))"
    unfolding process_motor_line [OF assms] by (simp add: k)
qed

section \<open>The backward move from 100 to 50 degrees\<close>

lemma back_50_distance: "distance (zero_dynamics\<lparr>angle_tf := 50\<rparr>) 100 = 50"
  by (simp add: distance_def)

lemma back_50_speed: "compute_speed low_byte 166400 = 36"
  using speed_char [of 408 166400 low_byte] by simp

lemma back_50_returned:
  "compute_dynamics low_byte (zero_dynamics\<lparr>angle_tf := 50\<rparr>) 100 = Returned back_50"
  "back_50 = plan_angles low_byte (- 1) (plan_times low_byte (zero_dynamics\<lparr>angle_tf := 50\<rparr>) 100)"
proof -
  have n: "angle_tf (zero_dynamics\<lparr>angle_tf := 50\<rparr>) \<noteq> 100" by simp
  have s: "c_div (uint (angle_tf (zero_dynamics\<lparr>angle_tf := 50\<rparr>)) - uint (100 :: u8))
             (distance (zero_dynamics\<lparr>angle_tf := 50\<rparr>) 100) = - 1"
    by (simp add: back_50_distance c_div_def)
  have r: "compute_dynamics low_byte (zero_dynamics\<lparr>angle_tf := 50\<rparr>) 100
      = Returned (plan_angles low_byte (- 1) (plan_times low_byte (zero_dynamics\<lparr>angle_tf := 50\<rparr>) 100))"
    using compute_dynamics_move [OF n, of low_byte] by (simp only: s)
  then show "back_50 = plan_angles low_byte (- 1) (plan_times low_byte (zero_dynamics\<lparr>angle_tf := 50\<rparr>) 100)"
    by (simp add: back_50_def planned_def)
  with r show "compute_dynamics low_byte (zero_dynamics\<lparr>angle_tf := 50\<rparr>) 100 = Returned back_50"
    by simp
qed

lemma back_50_times: "t1 back_50 = 112" "t2 back_50 = 1388" "delta back_50 = 166400"
  "forward back_50 = False" "angle_t0 back_50 = 100" "angle_tf back_50 = 50"
proof -
  show a: "t1 back_50 = 112"
    by (simp add: back_50_def dynamics_t1 back_50_distance back_50_speed int32_def c_div_def)
  show "t2 back_50 = 1388" using a by (simp add: back_50_def dynamics_t2)
  show "delta back_50 = 166400" by (simp add: back_50_def dynamics_delta back_50_distance)
  show "forward back_50 = False" by (simp add: back_50_def)
  show "angle_t0 back_50 = 100" by (simp add: back_50_def)
  show "angle_tf back_50 = 50" by (simp add: back_50_def)
qed

lemma back_50_plan_times:
  "t1 (plan_times low_byte (zero_dynamics\<lparr>angle_tf := 50\<rparr>) 100) = 112"
  "t2 (plan_times low_byte (zero_dynamics\<lparr>angle_tf := 50\<rparr>) 100) = 1388"
  "delta (plan_times low_byte (zero_dynamics\<lparr>angle_tf := 50\<rparr>) 100) = 166400"
  using back_50_times(1,2,3) by (simp_all add: back_50_def planned_times)

lemma back_50_angle_t1: "angle_t1 back_50 = 97"
proof -
  have "real (unat (100 :: u8)) + real_of_int (int32 (- 1 * ACC)) * (real (unat (112 :: u32)) / 1000)\<^sup>2 / 2
      = real_of_int 6124560 / real_of_int 62500"
    by (simp add: int32_def ACC_def power2_eq_square)
  moreover have "- 1 < real_of_int 6124560 / real_of_int 62500" "real_of_int 6124560 / real_of_int 62500 < 256"
    by simp_all
  ultimately have "to_u8 low_byte (real (unat (100 :: u8)) + real_of_int (int32 (- 1 * ACC)) * (real (unat (112 :: u32)) / 1000)\<^sup>2 / 2)
      = word_of_int (c_div 6124560 62500)"
    by (simp only: to_u8_def trunc_divide) simp
  then show ?thesis
    unfolding back_50_returned(2) plan_angles_t1 back_50_plan_times
    by (simp add: c_div_def)
qed

lemma to_u8_low_byte: "to_u8 low_byte x = word_of_int (trunc x)"
  by (simp add: to_u8_def low_byte_def)

lemma trunc_ratio: "0 < q \<Longrightarrow> x = real_of_int p / real_of_int q \<Longrightarrow> trunc x = c_div p q"
  by (simp only: trunc_divide)

lemma back_50_angle_t2: "angle_t2 back_50 = 106"
proof -
  have w: "unat ((word_of_int (- 1 * 36) :: u32) * (1388 - 112)) = 4294921360" by simp
  have "real (unat (97 :: u8)) + real (4294921360 :: nat) / 1000 = real_of_int 4295018360 / real_of_int 1000"
    by simp
  then have "trunc (real (unat (97 :: u8)) + real (4294921360 :: nat) / 1000) = c_div 4295018360 1000"
    by (intro trunc_ratio) simp_all
  then have "to_u8 low_byte (real (unat (97 :: u8)) + real (4294921360 :: nat) / 1000)
      = word_of_int (c_div 4295018360 1000)"
    by (simp only: to_u8_low_byte)
  then have e: "to_u8 low_byte (real (unat (97 :: u8)) + real (4294921360 :: nat) / 1000) = 106"
    by (simp add: c_div_def)
  have a1: "angle_t1 (plan_angles low_byte (- 1) (plan_times low_byte (zero_dynamics\<lparr>angle_tf := 50\<rparr>) 100)) = 97"
    using back_50_angle_t1 by (simp only: back_50_returned(2))
  show ?thesis
    unfolding back_50_returned(2) plan_angles_t2 a1 back_50_plan_times back_50_speed w
    using e .
qed

lemma back_50_samples:
  "compute_angle low_byte back_50 0 = 100"
  "compute_angle low_byte back_50 112 = 97"
  "compute_angle low_byte back_50 1388 = 106"
proof -
  show "compute_angle low_byte back_50 0 = 100"
    by (simp add: sample_at_zero back_50_times)
  have "- ((real (unat (112 :: u32)) / 1000)\<^sup>2) * real_of_int ACC / 2 + real (unat (100 :: u8))
      = real_of_int 6124560 / real_of_int 62500"
    by (simp add: ACC_def power2_eq_square)
  moreover have "- 1 < real_of_int 6124560 / real_of_int 62500" "real_of_int 6124560 / real_of_int 62500 < 256"
    by simp_all
  ultimately have "to_u8 low_byte (- ((real (unat (112 :: u32)) / 1000)\<^sup>2) * real_of_int ACC / 2 + real (unat (100 :: u8)))
      = word_of_int (c_div 6124560 62500)"
    by (simp only: to_u8_def trunc_divide) simp
  then show "compute_angle low_byte back_50 112 = 97"
    by (simp add: compute_angle_def back_50_times c_div_def)
  show "compute_angle low_byte back_50 1388 = 106"
    by (simp add: compute_angle_def back_50_times back_50_angle_t1 back_50_angle_t2 Let_def)
qed

section \<open>Reset and cartesian commands\<close>

lemma write_all_servos:
  "servos (write_all pl t st) = (servos st)
     (M1 := uint (compute_angle pl (dynamics_M1 st) t),
      M2 := uint (compute_angle pl (dynamics_M2 st) t),
      M2s := uint (compute_angle pl (dynamics_M2 st) t),
      M3 := uint (compute_angle pl (dynamics_M3 st) t),
      M4 := uint (compute_angle pl (dynamics_M4 st) t),
      M5 := uint (compute_angle pl (dynamics_M5 st) t))"
  by (simp add: write_all_def Let_def)

lemma returned_planned:
  assumes "angle_tf dyn \<noteq> c \<or> div_by_zero pl \<noteq> None"
  shows "compute_dynamics pl dyn c = Returned (planned pl dyn c)"
  using compute_dynamics_returns [OF assms] by (auto simp: planned_def)

lemma plan_all_returned:
  assumes "plans_return pl st"
  shows "plan_all pl st = Returned
     (st\<lparr>dynamics_M1 := planned pl (dynamics_M1 st) (word_of_int (servo_read M1 st)),
         dynamics_M2 := planned pl (dynamics_M2 st) (word_of_int (servo_read M2 st)),
         dynamics_M3 := planned pl (dynamics_M3 st) (word_of_int (servo_read M3 st)),
         dynamics_M4 := planned pl (dynamics_M4 st) (word_of_int (servo_read M4 st)),
         dynamics_M5 := planned pl (dynamics_M5 st) (word_of_int (servo_read M5 st))\<rparr>)"
proof -
  have r: "compute_dynamics pl (dynamics_M1 st) (word_of_int (servo_read M1 st))
             = Returned (planned pl (dynamics_M1 st) (word_of_int (servo_read M1 st)))"
    "compute_dynamics pl (dynamics_M2 st) (word_of_int (servo_read M2 st))
             = Returned (planned pl (dynamics_M2 st) (word_of_int (servo_read M2 st)))"
    "compute_dynamics pl (dynamics_M3 st) (word_of_int (servo_read M3 st))
             = Returned (planned pl (dynamics_M3 st) (word_of_int (servo_read M3 st)))"
    "compute_dynamics pl (dynamics_M4 st) (word_of_int (servo_read M4 st))
             = Returned (planned pl (dynamics_M4 st) (word_of_int (servo_read M4 st)))"
    "compute_dynamics pl (dynamics_M5 st) (word_of_int (servo_read M5 st))
             = Returned (planned pl (dynamics_M5 st) (word_of_int (servo_read M5 st)))"
    using assms by (auto simp: plans_return_def intro!: returned_planned)
  show ?thesis
    by (simp add: plan_all_def plan_M1_def plan_M2_def plan_M3_def plan_M4_def plan_M5_def
        servo_read_def r [unfolded servo_read_def])
qed

lemma reset_single_pass:
  assumes "plans_return pl (set_initial_targets st)" and "sint (now - t0) \<le> TF"
  shows "reset_robot pl (t0 # now # clock) st
     = Some (Returned (write_all pl (now - t0) (memory (plan_all pl (set_initial_targets st)))))"
  using assms(2) by (simp add: reset_robot_def plan_all_returned [OF assms(1)] Let_def)

lemma plan_all_fields:
  assumes "plans_return pl st"
  shows "servos (memory (plan_all pl st)) = servos st"
    and "written (memory (plan_all pl st)) = written st"
    and "serial_out (memory (plan_all pl st)) = serial_out st"
    and "single_motor_running (memory (plan_all pl st)) = single_motor_running st"
    and "five_axis_running (memory (plan_all pl st)) = five_axis_running st"
    and "motor_id (memory (plan_all pl st)) = motor_id st"
    and "cartesian_pos (memory (plan_all pl st)) = cartesian_pos st"
    and "dynamics_M1 (memory (plan_all pl st)) = planned pl (dynamics_M1 st) (word_of_int (servos st M1))"
    and "dynamics_M2 (memory (plan_all pl st)) = planned pl (dynamics_M2 st) (word_of_int (servos st M2))"
    and "dynamics_M3 (memory (plan_all pl st)) = planned pl (dynamics_M3 st) (word_of_int (servos st M3))"
    and "dynamics_M4 (memory (plan_all pl st)) = planned pl (dynamics_M4 st) (word_of_int (servos st M4))"
    and "dynamics_M5 (memory (plan_all pl st)) = planned pl (dynamics_M5 st) (word_of_int (servos st M5))"
  unfolding plan_all_returned [OF assms] by (simp_all add: servo_read_def)

lemma rejected_target:
  assumes "\<not> within_envelope (word_of_int (round_M1 (solve (cartesian_pos st))))
             (word_of_int (round_M2 (solve (cartesian_pos st))))
             (word_of_int (round_M3 (solve (cartesian_pos st))))
             (word_of_int (round_M4 (solve (cartesian_pos st))))
             (word_of_int (round_M5 (solve (cartesian_pos st))))"
  shows "get_angles_from_cartesian solve st
       = println ''Error(get_angles_from_cartesian): End position is outside of work enveloppe''
           (st\<lparr>cartesian_pos := wrist (solve (cartesian_pos st))\<rparr>)"
  using assms by (simp add: get_angles_from_cartesian_def Let_def)

lemma accepted_target:
  assumes "within_envelope (word_of_int (round_M1 (solve (cartesian_pos st))))
             (word_of_int (round_M2 (solve (cartesian_pos st))))
             (word_of_int (round_M3 (solve (cartesian_pos st))))
             (word_of_int (round_M4 (solve (cartesian_pos st))))
             (word_of_int (round_M5 (solve (cartesian_pos st))))"
  shows "angle_tf (dynamics_M1 (get_angles_from_cartesian solve st)) = word_of_int (round_M1 (solve (cartesian_pos st)))"
    and "angle_tf (dynamics_M2 (get_angles_from_cartesian solve st)) = word_of_int (round_M2 (solve (cartesian_pos st)))"
    and "angle_tf (dynamics_M3 (get_angles_from_cartesian solve st)) = word_of_int (round_M3 (solve (cartesian_pos st)))"
    and "angle_tf (dynamics_M4 (get_angles_from_cartesian solve st)) = word_of_int (round_M4 (solve (cartesian_pos st)))"
    and "angle_tf (dynamics_M5 (get_angles_from_cartesian solve st)) = word_of_int (round_M5 (solve (cartesian_pos st)))"
    and "serial_out (get_angles_from_cartesian solve st) = serial_out st"
  using assms by (simp_all add: get_angles_from_cartesian_def Let_def)

lemma cartesian_command_rejected:
  assumes "\<not> within_envelope
             (word_of_int (round_M1 (solve (parse_position input (cartesian_pos st)))))
             (word_of_int (round_M2 (solve (parse_position input (cartesian_pos st)))))
             (word_of_int (round_M3 (solve (parse_position input (cartesian_pos st)))))
             (word_of_int (round_M4 (solve (parse_position input (cartesian_pos st)))))
             (word_of_int (round_M5 (solve (parse_position input (cartesian_pos st)))))"
    and "plans_return pl st"
  shows "\<exists>st'. cartesian_command pl solve input st = Returned st'
       \<and> dynamics_M1 st' = planned pl (dynamics_M1 st) (word_of_int (servo_read M1 st))
       \<and> dynamics_M2 st' = planned pl (dynamics_M2 st) (word_of_int (servo_read M2 st))
       \<and> dynamics_M3 st' = planned pl (dynamics_M3 st) (word_of_int (servo_read M3 st))
       \<and> dynamics_M4 st' = planned pl (dynamics_M4 st) (word_of_int (servo_read M4 st))
       \<and> dynamics_M5 st' = planned pl (dynamics_M5 st) (word_of_int (servo_read M5 st))
       \<and> five_axis_running st'
       \<and> single_motor_running st' = single_motor_running st
       \<and> written st' = written st \<and> servos st' = servos st \<and> motor_id st' = motor_id st"
proof -
  let ?st1 = "st\<lparr>cartesian_pos := parse_position input (cartesian_pos st)\<rparr>"
  let ?st2 = "println ''Error(get_angles_from_cartesian): End position is outside of work enveloppe''
           (?st1\<lparr>cartesian_pos := wrist (solve (cartesian_pos ?st1))\<rparr>)"
  have r: "get_angles_from_cartesian solve ?st1 = ?st2"
    using assms(1) by (intro rejected_target) simp
  have pr: "plans_return pl ?st2"
    using assms(2) by (simp add: plans_return_def servo_read_def)
  note pa = plan_all_returned [OF pr]
  show ?thesis
    unfolding cartesian_command_def Let_def r pa
    by (simp add: servo_read_def)
qed

lemma process_cartesian_line:
  assumes "cartesian_mode st" "\<not> single_motor_mode st"
    and "input \<noteq> ''motor'' @ [CHR 0x0A]" "input \<noteq> ''reset'' @ [CHR 0x0A]"
  shows "process_input pl solve clock input st
       = Some (then_do (cartesian_command pl solve input
                          (st\<lparr>single_motor_running := False, five_axis_running := False\<rparr>))
                 (\<lambda>st1. Returned (if \<not> is_delta_positive st1
                                   then println ''Error(loop): Too low acceleration'' st1
                                   else st1)))"
proof -
  have m: "single_motor_mode (st\<lparr>single_motor_running := False, five_axis_running := False\<rparr>) = False"
    "cartesian_mode (st\<lparr>single_motor_running := False, five_axis_running := False\<rparr>) = True"
    using assms(1,2) by simp_all
  show ?thesis
    unfolding process_input_def Let_def
    by (simp only: assms(3,4) if_False m if_True)
qed

lemma scheduler_five_axis:
  assumes "is_delta_positive st" "\<not> single_motor_running st" "five_axis_running st"
  shows "scheduler_iteration pl t0 now st = write_all pl (now - t0) st"
  using assms by (simp add: scheduler_iteration_def Let_def)

section \<open>The claims\<close>

text \<open>
  C1. In every iteration of the polling loop: if any of the five stored profiles has a
  negative discriminant, the iteration writes to no actuator, whatever the run state and
  the selected motor are. The iteration leaves the whole state, with its record of writes,
  as it was, and so does any number of iterations.
\<close>

theorem gate_blocks_every_write:
  assumes "delta (dynamics_M1 st) < 0 \<or> delta (dynamics_M2 st) < 0 \<or> delta (dynamics_M3 st) < 0
         \<or> delta (dynamics_M4 st) < 0 \<or> delta (dynamics_M5 st) < 0"
  shows "scheduler_iteration pl t0 now st = st
       \<and> written (scheduler_iteration pl t0 now st) = written st
       \<and> scheduler pl t0 clock st = st"
  using gate_closed [OF assms] by (simp add: scheduler_closed) (simp add: scheduler_iteration_def)

theorem gate_blocks_every_write_witness:
  "delta (dynamics_M3 blocked) < 0 \<and> 0 \<le> delta (dynamics_M1 blocked) \<and> five_axis_running blocked
   \<and> written (scheduler_iteration low_byte 0 700 blocked) = []
   \<and> scheduler low_byte 0 [10, 700, 1500] blocked = blocked"
proof -
  have h: "delta (dynamics_M1 blocked) < 0 \<or> delta (dynamics_M2 blocked) < 0 \<or> delta (dynamics_M3 blocked) < 0
         \<or> delta (dynamics_M4 blocked) < 0 \<or> delta (dynamics_M5 blocked) < 0"
    by (simp add: blocked_def)
  show ?thesis
    using gate_blocks_every_write [OF h, of low_byte 0 700 "[10, 700, 1500]"]
    by (simp add: blocked_def power_on_def zero_dynamics_def)
qed

text \<open>
  C2 (the code departs from the claim). The solved angles are stored in \<^verbatim>\<open>byte\<close>
  variables before they are compared with the ranges, so a solved angle outside
  [0, Range] whose low 8 bits lie within the range passes the check. For the target
  \<open>x = 0\<close>, \<open>y = 6\<close>, \<open>z = 291\<close> the solved angle of axis 2 is 259: no report is printed
  and the five targets are overwritten, axis 2 receiving the target 3.
\<close>

theorem out_of_range_angle_committed:
  "180 < round_M2 (solve_0_6_291 (cartesian_pos target_0_6_291))
   \<and> angle_tf (dynamics_M1 (get_angles_from_cartesian solve_0_6_291 target_0_6_291)) = 90
   \<and> angle_tf (dynamics_M2 (get_angles_from_cartesian solve_0_6_291 target_0_6_291)) = 3
   \<and> angle_tf (dynamics_M3 (get_angles_from_cartesian solve_0_6_291 target_0_6_291)) = 160
   \<and> angle_tf (dynamics_M4 (get_angles_from_cartesian solve_0_6_291 target_0_6_291)) = 132
   \<and> angle_tf (dynamics_M5 (get_angles_from_cartesian solve_0_6_291 target_0_6_291)) = 162
   \<and> angle_tf (dynamics_M2 target_0_6_291) = 0
   \<and> serial_out (get_angles_from_cartesian solve_0_6_291 target_0_6_291) = serial_out target_0_6_291"
  by (simp add: get_angles_from_cartesian_def within_envelope_def solve_0_6_291_def target_0_6_291_def Let_def
      initialise_robot_def power_on_def zero_dynamics_def servo_write_def
      RANGE_M1_def RANGE_M2_def RANGE_M3_def RANGE_M4_def RANGE_M5_def)

text \<open>
  C3 (the code departs from the claim). The loop of \<^verbatim>\<open>reset_robot\<close> repeats while
  \<open>t > TF\<close>, so it ends after its first pass whenever the first elapsed time is at most
  \<open>TF\<close>. With every axis away from its initial angle (axis 3 at 100 degrees) and the first
  reading of the clock equal to \<open>t0\<close>, on every platform: the reset returns, axis 3 is
  planned toward 165, but the six writes of the single pass repeat the angles the actuators
  already have, and after the reset axis 3 still reads 100, not 165.
\<close>

theorem reset_leaves_axis_3:
  "servo_read M3 moved = 100
   \<and> (\<exists>s. reset_robot pl [t0, t0] moved = Some (Returned s)
          \<and> angle_tf (dynamics_M3 s) = 165
          \<and> servo_read M3 s = 100
          \<and> written s = written moved @ [(M1, 80), (M2, 170), (M2s, 170), (M3, 100), (M4, 80), (M5, 170)])"
proof -
  have s: "servos moved = (\<lambda>m. 0)(M1 := 80, M2 := 170, M2s := 170, M3 := 100, M4 := 80, M5 := 170)"
    by (auto simp: moved_def initialise_robot_def power_on_def servo_write_def fun_eq_iff
        ANGLE_INIT_M1_def ANGLE_INIT_M2_def ANGLE_INIT_M3_def ANGLE_INIT_M4_def ANGLE_INIT_M5_def RANGE_M3_def)
  have p: "plans_return pl (set_initial_targets moved)"
    by (simp add: plans_return_def set_initial_targets_def servo_read_def s
        ANGLE_INIT_M1_def ANGLE_INIT_M2_def ANGLE_INIT_M3_def ANGLE_INIT_M4_def ANGLE_INIT_M5_def RANGE_M3_def)
  have r: "reset_robot pl [t0, t0] moved
      = Some (Returned (write_all pl 0 (memory (plan_all pl (set_initial_targets moved)))))"
    using reset_single_pass [OF p, of t0 t0 "[]"] by (simp add: TF_def)
  note f = plan_all_fields [OF p]
  have t: "servos (set_initial_targets moved) = servos moved"
    "written (set_initial_targets moved) = written moved"
    "angle_tf (dynamics_M3 (set_initial_targets moved)) = 165"
    by (simp_all add: set_initial_targets_def ANGLE_INIT_M3_def RANGE_M3_def)
  have "servo_read M3 moved = 100" by (simp add: servo_read_def s)
  moreover have "angle_tf (dynamics_M3 (write_all pl 0 (memory (plan_all pl (set_initial_targets moved))))) = 165"
    by (simp add: write_all_def Let_def f t)
  moreover have "servo_read M3 (write_all pl 0 (memory (plan_all pl (set_initial_targets moved)))) = 100"
    by (simp add: write_all_servos servo_read_def sample_at_zero f t s)
  moreover have "written (write_all pl 0 (memory (plan_all pl (set_initial_targets moved))))
      = written moved @ [(M1, 80), (M2, 170), (M2s, 170), (M3, 100), (M4, 80), (M5, 170)]"
    by (simp add: write_all_def Let_def sample_at_zero f t s)
  ultimately show ?thesis unfolding r by simp
qed



text \<open>
  C5 (the code departs from the claim). When the target equals the current angle,
  \<^verbatim>\<open>DISTANCE\<close> is 0 and line 389 divides 0 by 0. Where that division traps, the plan
  operation does not return for any angle \<open>a\<close>: the program is stopped with the
  discriminant 230400 and \<open>t1 = 0\<close> already stored. In particular the line
  \<^verbatim>\<open>M1.050\<close>, received in single-motor mode while actuator 1 reads 90, stores the target
  90 and stops the program inside the plan; \<open>single_motor_running\<close> is not set and nothing
  is sampled.
\<close>

theorem same_angle_plan_killed:
  "compute_dynamics trapping (dyn\<lparr>angle_tf := a\<rparr>) a = Killed (plan_times trapping (dyn\<lparr>angle_tf := a\<rparr>) a)
   \<and> delta (plan_times trapping (dyn\<lparr>angle_tf := a\<rparr>) a) = 230400
   \<and> t1 (plan_times trapping (dyn\<lparr>angle_tf := a\<rparr>) a) = 0
   \<and> servo_read M1 motor_ready = 90
   \<and> (\<exists>s. process_input trapping solve clock (motor_line CHR ''1'' 50) motor_ready = Some (Killed s)
          \<and> angle_tf (dynamics_M1 s) = 90 \<and> angle_t0 (dynamics_M1 s) = 90
          \<and> \<not> single_motor_running s)"
proof -
  have g: "angle_tf (dyn\<lparr>angle_tf := a\<rparr>) = a" by simp
  have tr: "div_by_zero trapping = None" by (simp add: trapping_def)
  note s = same_angle_times [OF g]
  have k: "compute_dynamics trapping (dyn\<lparr>angle_tf := a\<rparr>) a = Killed (plan_times trapping (dyn\<lparr>angle_tf := a\<rparr>) a)"
    using compute_dynamics_killed [OF g tr] .
  let ?st0 = "motor_ready\<lparr>single_motor_running := False, five_axis_running := False\<rparr>"
  let ?st2 = "(print (''> '' @ motor_line CHR ''1'' 50) ?st0)
           \<lparr>motor_id := CHR ''1'',
            dynamics_M1 := (dynamics_M1 ?st0)\<lparr>angle_tf := word_of_int (map_long (toInt (ppp 50)) 0 100 0 RANGE_M1)\<rparr>\<rparr>"
  have h1: "single_motor_mode motor_ready" by (simp add: motor_ready_def)
  have rd: "servo_read M1 motor_ready = 90"
    by (simp add: motor_ready_def initialise_robot_def servo_read_def servo_write_def ANGLE_INIT_M1_def)
  have "toInt (ppp 50) = 50" using toInt_ppp [of 50] by simp
  then have m: "word_of_int (map_long (toInt (ppp 50)) 0 100 0 RANGE_M1) = (90 :: u8)"
    by (simp add: map_long_up RANGE_M1_def)
  have rd2: "word_of_int (servo_read M1 ?st2) = (90 :: u8)"
    using rd by (simp add: servo_read_def print_def)
  have tf: "angle_tf (dynamics_M1 ?st2) = 90" by (simp add: m)
  have "compute_dynamics trapping (dynamics_M1 ?st2) (word_of_int (servo_read M1 ?st2))
      = Killed (plan_times trapping (dynamics_M1 ?st2) 90)"
    unfolding rd2 using tf tr by (rule compute_dynamics_killed)
  then have pk: "plan_M1 trapping ?st2
      = Killed (?st2\<lparr>dynamics_M1 := plan_times trapping (dynamics_M1 ?st2) 90\<rparr>)"
    by (rule plan_killed)
  have "process_input trapping solve clock (motor_line CHR ''1'' 50) motor_ready
      = Some (Killed (?st2\<lparr>dynamics_M1 := plan_times trapping (dynamics_M1 ?st2) 90\<rparr>))"
    unfolding process_motor_line [OF h1] motor_command_line pk by simp
  moreover have "angle_tf (dynamics_M1 (?st2\<lparr>dynamics_M1 := plan_times trapping (dynamics_M1 ?st2) 90\<rparr>)) = 90"
    using tf by simp
  moreover have "angle_t0 (dynamics_M1 (?st2\<lparr>dynamics_M1 := plan_times trapping (dynamics_M1 ?st2) 90\<rparr>)) = 90"
    by simp
  moreover have "\<not> single_motor_running (?st2\<lparr>dynamics_M1 := plan_times trapping (dynamics_M1 ?st2) 90\<rparr>)"
    by (simp add: print_def)
  ultimately have "\<exists>s. process_input trapping solve clock (motor_line CHR ''1'' 50) motor_ready = Some (Killed s)
          \<and> angle_tf (dynamics_M1 s) = 90 \<and> angle_t0 (dynamics_M1 s) = 90
          \<and> \<not> single_motor_running s"
    by blast
  with k s(2,4) rd show ?thesis by blast
qed



text \<open>
  C7 (the code departs from the claim). In a backward move the products
  \<^verbatim>\<open>SIGN * SPEED * (t2 - t1)\<close> and the difference \<^verbatim>\<open>t - TF\<close> are computed in
  \<^verbatim>\<open>uint32_t\<close>. For the feasible move from 100 to 50 degrees, on a platform that keeps the
  low 8 bits of a converted value, \<open>angle_t2\<close> is 106 and the samples are 100 at 0 ms, 97
  at 112 ms and 106 at 1388 ms: the samples rise during a backward move and leave the
  interval between target and start.
\<close>

theorem backward_move_rises:
  "compute_dynamics low_byte (zero_dynamics\<lparr>angle_tf := 50\<rparr>) 100 = Returned back_50
   \<and> 0 \<le> delta back_50 \<and> angle_t0 back_50 = 100 \<and> angle_tf back_50 = 50
   \<and> compute_angle low_byte back_50 0 = 100
   \<and> compute_angle low_byte back_50 112 = 97
   \<and> compute_angle low_byte back_50 1388 = 106"
  by (simp add: back_50_samples back_50_times back_50_returned(1))

text \<open>
  C8. For a line \<^verbatim>\<open>M<id>.<ppp>\<close> received in single-motor mode, with a percentage
  \<open>p\<close> in [0, 100]: the stored target of axes 1 and 5 is \<open>p * 180 div 100\<close> (0 at 0 percent,
  180 at 100 percent); the stored target of axes 2 and 4 is \<open>180 - p * 180 div 100\<close> and
  that of axis 3 is \<open>165 - p * 165 div 100\<close> (the range at 0 percent, 0 at 100 percent).
  The target is stored before the plan is computed, so this is the target in memory
  whether the plan returns or not.
\<close>

theorem motor_line_target:
  assumes "single_motor_mode st" and "p \<le> 100"
  shows "map_option (\<lambda>r. uint (angle_tf (dynamics_M1 (memory r))))
           (process_input pl solve clock (motor_line CHR ''1'' p) st) = Some (int p * 180 div 100)
       \<and> map_option (\<lambda>r. uint (angle_tf (dynamics_M5 (memory r))))
           (process_input pl solve clock (motor_line CHR ''5'' p) st) = Some (int p * 180 div 100)
       \<and> map_option (\<lambda>r. uint (angle_tf (dynamics_M2 (memory r))))
           (process_input pl solve clock (motor_line CHR ''2'' p) st) = Some (180 - int p * 180 div 100)
       \<and> map_option (\<lambda>r. uint (angle_tf (dynamics_M3 (memory r))))
           (process_input pl solve clock (motor_line CHR ''3'' p) st) = Some (165 - int p * 165 div 100)
       \<and> map_option (\<lambda>r. uint (angle_tf (dynamics_M4 (memory r))))
           (process_input pl solve clock (motor_line CHR ''4'' p) st) = Some (180 - int p * 180 div 100)"
proof -
  have p: "toInt (ppp p) = int p" using assms(2) by (intro toInt_ppp) simp
  have m: "map_option (\<lambda>r. uint (angle_tf (f (memory r)))) x
         = map_option (\<lambda>d. uint (angle_tf d)) (map_option (\<lambda>r. f (memory r)) x)"
    for f :: "robot \<Rightarrow> motor_dynamics_t" and x
    by (simp add: option.map_comp comp_def)
  show ?thesis
    unfolding m process_motor_line_dynamics [OF assms(1)] motor_command_dynamics
    using target_up [OF assms(2), of 180] target_down [OF assms(2), of 180] target_down [OF assms(2), of 165]
    by (simp add: p RANGE_M1_def RANGE_M2_def RANGE_M3_def RANGE_M4_def RANGE_M5_def)
qed

theorem motor_line_target_witness:
  "single_motor_mode motor_ready \<and> (0::nat) \<le> 100 \<and> (100::nat) \<le> 100
   \<and> map_option (\<lambda>r. uint (angle_tf (dynamics_M1 (memory r))))
        (process_input trapping solve_0_100_200 [] (motor_line CHR ''1'' 0) motor_ready) = Some 0
   \<and> map_option (\<lambda>r. uint (angle_tf (dynamics_M1 (memory r))))
        (process_input trapping solve_0_100_200 [] (motor_line CHR ''1'' 100) motor_ready) = Some 180
   \<and> map_option (\<lambda>r. uint (angle_tf (dynamics_M3 (memory r))))
        (process_input trapping solve_0_100_200 [] (motor_line CHR ''3'' 0) motor_ready) = Some 165
   \<and> map_option (\<lambda>r. uint (angle_tf (dynamics_M3 (memory r))))
        (process_input trapping solve_0_100_200 [] (motor_line CHR ''3'' 100) motor_ready) = Some 0"
proof -
  have h: "single_motor_mode motor_ready" by (simp add: motor_ready_def)
  have a: "(0::nat) \<le> 100" and b: "(100::nat) \<le> 100" by simp_all
  show ?thesis
    using motor_line_target [OF h a, of trapping solve_0_100_200 "[]"]
      motor_line_target [OF h b, of trapping solve_0_100_200 "[]"] h
    by simp
qed



text \<open>
  C10. The single-motor command does not validate the percentage. For every three-digit
  field \<open>p\<close> the linear map \<open>p * 180 div 100\<close> is stored modulo 256 as the target of axis
  1 (the field 999 stores 1798 mod 256 = 6); for the percentage 111 the stored target is
  199, above the range 180 of the joint.
\<close>

theorem percentage_not_validated:
  assumes "single_motor_mode st" and "p < 1000"
  shows "map_option (\<lambda>r. uint (angle_tf (dynamics_M1 (memory r))))
           (process_input pl solve clock (motor_line CHR ''1'' p) st)
         = Some (map_long (int p) 0 100 0 RANGE_M1 mod 256)
       \<and> map_long (int p) 0 100 0 RANGE_M1 = int p * 180 div 100
       \<and> map_option (\<lambda>r. uint (angle_tf (dynamics_M1 (memory r))))
           (process_input pl solve clock (motor_line CHR ''1'' 111) st) = Some 199
       \<and> RANGE_M1 < 199"
proof -
  have m: "map_option (\<lambda>r. uint (angle_tf (f (memory r)))) x
         = map_option (\<lambda>d. uint (angle_tf d)) (map_option (\<lambda>r. f (memory r)) x)"
    for f :: "robot \<Rightarrow> motor_dynamics_t" and x
    by (simp add: option.map_comp comp_def)
  have u: "map_long (int q) 0 100 0 RANGE_M1 = int q * 180 div 100" for q
    by (simp add: map_long_up RANGE_M1_def)
  have g: "map_option (\<lambda>r. uint (angle_tf (dynamics_M1 (memory r))))
           (process_input pl solve clock (motor_line CHR ''1'' q) st)
         = Some (map_long (int q) 0 100 0 RANGE_M1 mod 256)" if "q < 1000" for q
    unfolding m process_motor_line_dynamics [OF assms(1)] motor_command_dynamics
    using toInt_ppp [OF that] by (simp add: uint_word_of_int take_bit_eq_mod)
  have v: "map_long (int 111) 0 100 0 RANGE_M1 mod 256 = 199"
    by (simp add: map_long_up RANGE_M1_def)
  have "map_option (\<lambda>r. uint (angle_tf (dynamics_M1 (memory r))))
           (process_input pl solve clock (motor_line CHR ''1'' 111) st) = Some 199"
    using g [of 111] by (simp only: v)
  moreover have "RANGE_M1 < 199" by (simp add: RANGE_M1_def)
  ultimately show ?thesis using g [OF assms(2)] u [of p] by (simp only: simp_thms)
qed

theorem percentage_not_validated_witness:
  "single_motor_mode motor_ready \<and> (999::nat) < 1000
   \<and> map_option (\<lambda>r. uint (angle_tf (dynamics_M1 (memory r))))
        (process_input trapping solve_0_100_200 [] (motor_line CHR ''1'' 999) motor_ready) = Some 6
   \<and> map_long 999 0 100 0 RANGE_M1 = 1798
   \<and> map_option (\<lambda>r. uint (angle_tf (dynamics_M1 (memory r))))
        (process_input trapping solve_0_100_200 [] (motor_line CHR ''1'' 111) motor_ready) = Some 199"
proof -
  have h: "single_motor_mode motor_ready" by (simp add: motor_ready_def)
  have a: "(999::nat) < 1000" by simp
  have v: "map_long (int 999) 0 100 0 RANGE_M1 = 1798"
    by (simp add: map_long_up RANGE_M1_def)
  have w: "map_long 999 0 100 0 RANGE_M1 = 1798"
    using v by simp
  show ?thesis
    using percentage_not_validated [OF h a, of trapping solve_0_100_200 "[]"] h
    by (simp only: v w) simp
qed


end
